theory Spec2Isabelle
  imports Main
begin

section \<open>Data model of the workflow graph (ToolNode.tsx, WorkflowBuilder)\<close>

text \<open>
  Tool outputs are untyped JavaScript values (\<^verbatim>\<open>output?: any\<close>), mostly parsed JSON.
  Numbers are restricted to integers; object properties are an association list
  (the first binding of a key is the one read).
\<close>

datatype jsval =
    JUndefined
  | JNull
  | JBool bool
  | JNum int
  | JStr string
  | JArr "jsval list"
  | JObj "(string \<times> jsval) list"

datatype ToolType =
    Source_Finder
  | Contradiction_Checker
  | Data_Analysis
  | Claim_Extractor
  | AI_Literature_Review
  | Reference_Citation_Management
  | Export_TXT
  | Export_DOC

datatype status = Pending | Running | Success | Error

text \<open>The fields of \<^verbatim>\<open>ToolConfig\<close> that the runtime reads; every one is optional.\<close>

record ToolConfig =
  prompt :: "string option"
  model :: "string option"
  reviewTopicScope :: "string option"
  reviewType :: "string option"
  reviewDepthLength :: "string option"
  reviewTone :: "string option"
  yearFrom :: "string option"
  yearTo :: "string option"
  referencesInput :: "string option"
  citationStyle :: "string option"
  exportFileName :: "string option"

text \<open>
  \<^verbatim>\<open>ToolNodeData\<close>. An absent \<^verbatim>\<open>output\<close> is \<open>JUndefined\<close>. The source tests
  \<^verbatim>\<open>!predToolType\<close>, so the tool type may be absent. The callbacks
  \<^verbatim>\<open>onConfigChange\<close>/\<^verbatim>\<open>onRun\<close> and the layout-only fields are left out: no
  operation below reads them.
\<close>

record ToolNodeData =
  id_data :: string
  label :: string
  toolType :: "ToolType option"
  config :: ToolConfig
  status :: status
  output_data :: jsval
  sessionId :: "string option"

text \<open>A React Flow node; coordinates are taken as integers.\<close>

record node =
  id_node :: string
  position :: "int \<times> int"
  dragHandle :: "string option"
  data :: ToolNodeData

text \<open>
  An edge endpoint. Paste re-points endpoints by reading a plain-object table
  (\<^verbatim>\<open>oldToNew[e.source]\<close>), so an endpoint need not be a node id: a key the table lacks
  reads as \<^verbatim>\<open>undefined\<close>, unless \<^verbatim>\<open>Object.prototype\<close> has a property of that name, whose
  value (an object or a function, never a string) is then what is read.
\<close>

datatype endpoint = Node_id string | Undefined_endpoint | Inherited string

record edge =
  id_edge :: string
  source :: endpoint
  target :: endpoint

datatype action_type = paste | cut

record action =
  type_action :: action_type
  nodes_action :: "node list"
  edges_action :: "edge list"

text \<open>A timer registered with \<^verbatim>\<open>window.setTimeout\<close>: its id, the node its callback
  executes and its delay in milliseconds.\<close>

record timer =
  timer_id :: nat
  timer_node :: string
  timer_delay :: nat

text \<open>The persisted workflow document; a field that is missing (or falsy) is \<open>None\<close>.\<close>

record workflow_doc =
  doc_nodes :: "node list option"
  doc_edges :: "edge list option"
  savedAt :: "string option"

text \<open>What a download hands to the user: a saved workflow document or an exported file body.\<close>

datatype download_content = Workflow_file workflow_doc | Blob string

text \<open>An HTTP POST issued by the runtime: the endpoint and the properties of its JSON body.\<close>

record request =
  url :: string
  body :: "(string \<times> jsval) list"

text \<open>
  The component state of \<^verbatim>\<open>WorkflowBuilder\<close> (\<^verbatim>\<open>useState\<close>/\<^verbatim>\<open>useRef\<close> cells) together
  with the parts of the browser its handlers write to: the table of active timers, the
  console (warnings and errors only), local storage, the list of offered downloads and
  the list of HTTP requests issued.
  Handlers run between renders, so \<^verbatim>\<open>nodesRef.current\<close> and \<^verbatim>\<open>edgesRef.current\<close> are
  the fields \<open>nodes\<close> and \<open>edges\<close>.
\<close>

record world =
  nodes :: "node list"
  edges :: "edge list"
  runningWorkflow :: bool
  selection :: "node list \<times> edge list"
  copyBuffer :: "(node list \<times> edge list) option"
  lastAction :: "action option"
  redoAction :: "action option"
  workflowExecutionRefs :: "nat list"
  idCounter :: nat
  timers :: "timer list"
  nextTimerId :: nat
  console :: "string list"
  localStorage :: "workflow_doc option"
  downloads :: "(string \<times> download_content) list"
  requests :: "request list"

section \<open>Number-to-string conversion\<close>

text \<open>The decimal rendering JavaScript gives a non-negative integer in a template literal.
  Counters are natural numbers: the source's doubles count exactly far beyond any value a
  session reaches.\<close>

definition digit :: "nat \<Rightarrow> char" where
  "digit d = ''0123456789'' ! d"

fun show_nat :: "nat \<Rightarrow> string" where
  "show_nat n = (if n < 10 then [digit n] else show_nat (n div 10) @ [digit (n mod 10)])"

declare show_nat.simps [simp del]

section \<open>Node construction and the initial state\<close>

definition empty_config :: ToolConfig where
  "empty_config =
     \<lparr>prompt = None, model = None, reviewTopicScope = None, reviewType = None,
      reviewDepthLength = None, reviewTone = None, yearFrom = None, yearTo = None,
      referencesInput = None, citationStyle = None, exportFileName = None\<rparr>"

text \<open>\<^verbatim>\<open>createToolNode\<close> of presets.ts (label and tool type coincide there).\<close>

definition createToolNode :: "string \<Rightarrow> string \<Rightarrow> ToolType \<Rightarrow> int \<Rightarrow> int \<Rightarrow> node" where
  "createToolNode i l t x y =
     \<lparr>id_node = i, position = (x, y), dragHandle = None,
      data = \<lparr>id_data = i, label = l, toolType = Some t, config = empty_config,
              status = Pending, output_data = JUndefined, sessionId = None\<rparr>\<rparr>"

definition initial_world :: world where
  "initial_world =
     \<lparr>nodes = [], edges = [], runningWorkflow = False, selection = ([], []),
      copyBuffer = None, lastAction = None, redoAction = None,
      workflowExecutionRefs = [], idCounter = 1, timers = [], nextTimerId = 1,
      console = [], localStorage = None, downloads = [], requests = []\<rparr>"

section \<open>Scheduler: run and stop\<close>

definition set_status :: "status \<Rightarrow> node \<Rightarrow> node" where
  "set_status s n = n\<lparr>data := (data n)\<lparr>status := s\<rparr>\<rparr>"

text \<open>\<^verbatim>\<open>nodesRef.current.filter(node => !edgesRef.current.some(edge => edge.target === node.id))\<close>\<close>

definition rootNodes :: "node list \<Rightarrow> edge list \<Rightarrow> node list" where
  "rootNodes ns es = filter (\<lambda>n. \<not> list_ex (\<lambda>e. target e = Node_id (id_node n)) es) ns"

text \<open>
  The synchronous part of \<^verbatim>\<open>onRunWorkflow\<close>. Each root gets one timer with delay
  \<open>500 + index * 200\<close>; \<^verbatim>\<open>executeNode\<close> pushes the timer id into \<^verbatim>\<open>timeoutIdsStore\<close> before it
  returns, and the \<^verbatim>\<open>forEach\<close> callback pushes it a second time once its \<^verbatim>\<open>await\<close> resumes.
  The array stored by \<^verbatim>\<open>setWorkflowExecutionRefs\<close> is that same array object, so it holds
  every id twice when the handler has settled.
\<close>

definition root_timers :: "nat \<Rightarrow> node list \<Rightarrow> timer list" where
  "root_timers t0 rs =
     map (\<lambda>(i, n). \<lparr>timer_id = t0 + i, timer_node = id_node n, timer_delay = 500 + i * 200\<rparr>)
         (enumerate 0 rs)"

definition onRunWorkflow :: "world \<Rightarrow> world" where
  "onRunWorkflow w =
     (if length (nodes w) = 0 then w\<lparr>console := console w @ [''No workflow to run'']\<rparr>
      else
        let marked = map (set_status Running) (nodes w);
            roots = rootNodes (nodes w) (edges w)
        in if length roots = 0
           then w\<lparr>nodes := marked, runningWorkflow := False,
                   console := console w @ [''No root nodes found in workflow'']\<rparr>
           else
             let ts = root_timers (nextTimerId w) roots;
                 ids = map timer_id ts
             in w\<lparr>nodes := marked, runningWorkflow := True,
                   timers := timers w @ ts, nextTimerId := nextTimerId w + length roots,
                   workflowExecutionRefs := ids @ ids\<rparr>)"

definition onStopWorkflow :: "world \<Rightarrow> world" where
  "onStopWorkflow w =
     w\<lparr>timers := filter (\<lambda>t. timer_id t \<notin> set (workflowExecutionRefs w)) (timers w),
       workflowExecutionRefs := [],
       nodes := map (set_status Pending) (nodes w),
       runningWorkflow := False\<rparr>"

section \<open>Persistence: save and load\<close>

text \<open>
  \<^verbatim>\<open>onSaveWorkflow\<close>. The saved node keeps the node's own fields and replaces \<^verbatim>\<open>data\<close> by
  \<^verbatim>\<open>{id, label, toolType, config, status: 'pending'}\<close>, so \<^verbatim>\<open>output\<close> and \<^verbatim>\<open>sessionId\<close>
  are absent from it. \<open>now_iso\<close> is \<^verbatim>\<open>new Date().toISOString()\<close> and \<open>now_ms\<close> is
  \<^verbatim>\<open>Date.now()\<close>. Local storage and the download hold the document itself rather than
  its JSON text.
\<close>

definition saved_node :: "node \<Rightarrow> node" where
  "saved_node n =
     n\<lparr>data := \<lparr>id_data = id_data (data n), label = label (data n),
                 toolType = toolType (data n), config = config (data n),
                 status = Pending, output_data = JUndefined, sessionId = None\<rparr>\<rparr>"

definition workflowData :: "world \<Rightarrow> string \<Rightarrow> workflow_doc" where
  "workflowData w now_iso =
     \<lparr>doc_nodes = Some (map saved_node (nodes w)), doc_edges = Some (edges w),
      savedAt = Some now_iso\<rparr>"

definition onSaveWorkflow :: "string \<Rightarrow> nat \<Rightarrow> world \<Rightarrow> world" where
  "onSaveWorkflow now_iso now_ms w =
     (if length (nodes w) = 0 then w\<lparr>console := console w @ [''No workflow to save'']\<rparr>
      else w\<lparr>localStorage := Some (workflowData w now_iso),
             downloads := downloads w
               @ [(''workflow_'' @ show_nat now_ms @ ''.json'',
                   Workflow_file (workflowData w now_iso))]\<rparr>)"

text \<open>
  What \<^verbatim>\<open>JSON.parse\<close> made of the chosen file: it threw, it returned \<^verbatim>\<open>null\<close> (reading a
  property of which throws a TypeError), or it returned a value whose \<^verbatim>\<open>nodes\<close> and
  \<^verbatim>\<open>edges\<close> properties can be read. A primitive has neither property. A property that
  is present holds a list of well-typed nodes or edges.
\<close>

datatype parsed = Unparsable | Null_document | Document workflow_doc

text \<open>The per-node rewiring of \<^verbatim>\<open>onLoadWorkflow\<close>; on a typed node \<^verbatim>\<open>config || {}\<close> is the
  config itself.\<close>

definition loaded_node :: "node \<Rightarrow> node" where
  "loaded_node n = n\<lparr>dragHandle := Some ''.drag-handle'', data := (data n)\<lparr>status := Pending\<rparr>\<rparr>"

text \<open>The \<^verbatim>\<open>reader.onload\<close> callback of \<^verbatim>\<open>onLoadWorkflow\<close>, with its \<^verbatim>\<open>try/catch\<close>.\<close>

definition onLoadWorkflow :: "parsed \<Rightarrow> world \<Rightarrow> world" where
  "onLoadWorkflow p w =
     (case p of
        Unparsable \<Rightarrow> w\<lparr>console := console w @ [''Error parsing workflow file:'']\<rparr>
      | Null_document \<Rightarrow> w\<lparr>console := console w @ [''Error parsing workflow file:'']\<rparr>
      | Document d \<Rightarrow>
          (case (doc_nodes d, doc_edges d) of
             (Some ns, Some es) \<Rightarrow> w\<lparr>nodes := map loaded_node ns, edges := es\<rparr>
           | _ \<Rightarrow> w\<lparr>console := console w @ [''Invalid workflow file format'']\<rparr>))"

section \<open>JavaScript value semantics used by the adapter\<close>

fun truthy :: "jsval \<Rightarrow> bool" where
  "truthy JUndefined = False"
| "truthy JNull = False"
| "truthy (JBool b) = b"
| "truthy (JNum i) = (i \<noteq> 0)"
| "truthy (JStr s) = (s \<noteq> [])"
| "truthy (JArr xs) = True"
| "truthy (JObj kvs) = True"

fun nullish :: "jsval \<Rightarrow> bool" where
  "nullish JUndefined = True"
| "nullish JNull = True"
| "nullish v = False"

text \<open>Reading a property \<open>k\<close> of a value that is neither \<^verbatim>\<open>null\<close> nor \<^verbatim>\<open>undefined\<close>. Only
  data properties of parsed JSON are read this way (never \<^verbatim>\<open>length\<close> or a method), so
  every value but an object answers \<^verbatim>\<open>undefined\<close>.\<close>

fun get_prop :: "jsval \<Rightarrow> string \<Rightarrow> jsval" where
  "get_prop (JObj kvs) k = (case map_of kvs k of Some v \<Rightarrow> v | None \<Rightarrow> JUndefined)"
| "get_prop v k = JUndefined"

fun join :: "string \<Rightarrow> string list \<Rightarrow> string" where
  "join sep [] = []"
| "join sep [x] = x"
| "join sep (x # y # ys) = x @ sep @ join sep (y # ys)"

text \<open>
  What the handlers take from outside the repository: the engine's JSON serialiser
  (\<^verbatim>\<open>JSON.stringify(v, null, 2)\<close> and \<^verbatim>\<open>JSON.stringify(v)\<close>, applied to values other than
  \<^verbatim>\<open>undefined\<close>), the engine's rendering of a number beyond the safe integers, the text
  of the engine's TypeError message, and the tool back ends: \<open>fetchApiAndParse\<close> answers a
  request with the parsed JSON or throws an error with a message; \<open>fetch_export\<close> is the
  raw \<^verbatim>\<open>fetch\<close> of the export tools, answering with the response text or an error message.
\<close>

record runtime =
  JSON_stringify_pretty :: "jsval \<Rightarrow> string"
  JSON_stringify :: "jsval \<Rightarrow> string"
  number_text :: "int \<Rightarrow> string"
  typeError_message :: string
  fetchApiAndParse :: "request \<Rightarrow> string + jsval"
  fetch_export :: "request \<Rightarrow> string + string"

text \<open>A safe integer (below \<open>2\<^sup>5\<^sup>3\<close> in magnitude) prints all its digits; beyond that
  the double is printed in its shortest form, then in exponent form, by the engine.\<close>

definition show_int :: "int \<Rightarrow> string" where
  "show_int i = (if i < 0 then ''-'' @ show_nat (nat (- i)) else show_nat (nat i))"

definition number_toString :: "runtime \<Rightarrow> int \<Rightarrow> string" where
  "number_toString rt i =
     (if \<bar>i\<bar> < 9007199254740992 then show_int i else number_text rt i)"

text \<open>The string conversion of a template literal and of \<^verbatim>\<open>Array.prototype.join\<close>, which
  renders \<^verbatim>\<open>null\<close> and \<^verbatim>\<open>undefined\<close> elements as the empty string.\<close>

fun toString :: "runtime \<Rightarrow> jsval \<Rightarrow> string" where
  "toString rt JUndefined = ''undefined''"
| "toString rt JNull = ''null''"
| "toString rt (JBool b) = (if b then ''true'' else ''false'')"
| "toString rt (JNum i) = number_toString rt i"
| "toString rt (JStr s) = s"
| "toString rt (JArr xs) = join '','' (map (\<lambda>x. if nullish x then [] else toString rt x) xs)"
| "toString rt (JObj kvs) = ''[object Object]''"

definition array_join :: "runtime \<Rightarrow> string \<Rightarrow> jsval list \<Rightarrow> string" where
  "array_join rt sep xs = join sep (map (\<lambda>x. if nullish x then [] else toString rt x) xs)"

definition newline :: string where
  "newline = [CHR 0x0A]"

text \<open>Exceptions: a TypeError raised by the engine, or \<^verbatim>\<open>new Error(message)\<close>.\<close>

datatype exn = TypeError | Failure string

text \<open>\<^verbatim>\<open>xs.map(f)\<close> where \<open>f\<close> may throw: the first exception, left to right, ends the map.\<close>

fun map_exn :: "('a \<Rightarrow> exn + 'b) \<Rightarrow> 'a list \<Rightarrow> exn + 'b list" where
  "map_exn f [] = Inr []"
| "map_exn f (x # xs) =
     (case f x of
        Inl e \<Rightarrow> Inl e
      | Inr y \<Rightarrow> (case map_exn f xs of Inl e \<Rightarrow> Inl e | Inr ys \<Rightarrow> Inr (y # ys)))"

section \<open>Adapter: getInputFromPredecessorNode\<close>

text \<open>The result type \<^verbatim>\<open>string | any[] | null\<close>.\<close>

datatype adapted = Papers "jsval list" | Text string | No_input

text \<open>\<^verbatim>\<open>`${p.title}. ${Array.isArray(p.authors) ? p.authors.join(', ') : ''} (${p.published || ''})`\<close>\<close>

definition paper_line :: "runtime \<Rightarrow> jsval \<Rightarrow> exn + string" where
  "paper_line rt p =
     (if nullish p then Inl TypeError
      else Inr (toString rt (get_prop p ''title'') @ ''. ''
                @ (case get_prop p ''authors'' of
                     JArr as \<Rightarrow> array_join rt '', '' as
                   | _ \<Rightarrow> [])
                @ '' (''
                @ (if truthy (get_prop p ''published'')
                   then toString rt (get_prop p ''published'') else [])
                @ '')''))"

text \<open>\<^verbatim>\<open>typeof c === 'string' ? c : (c.text || JSON.stringify(c))\<close>, as \<^verbatim>\<open>join\<close> renders it.\<close>

definition claim_line :: "runtime \<Rightarrow> jsval \<Rightarrow> exn + string" where
  "claim_line rt c =
     (case c of
        JStr s \<Rightarrow> Inr s
      | _ \<Rightarrow> if nullish c then Inl TypeError
             else if truthy (get_prop c ''text'') then Inr (toString rt (get_prop c ''text''))
             else Inr (JSON_stringify rt c))"

fun is_array :: "jsval \<Rightarrow> bool" where
  "is_array (JArr xs) = True"
| "is_array v = False"

fun is_string :: "jsval \<Rightarrow> bool" where
  "is_string (JStr s) = True"
| "is_string v = False"

fun elems :: "jsval \<Rightarrow> jsval list" where
  "elems (JArr xs) = xs"
| "elems v = []"

text \<open>
  \<^verbatim>\<open>getInputFromPredecessorNode\<close>, in two parts: \<open>later_rules\<close> is the chain of tests that
  follows the two tests on \<^verbatim>\<open>output.papers\<close> (claims, review text, text, string,
  serialisation).
\<close>

definition later_rules :: "runtime \<Rightarrow> ToolType option \<Rightarrow> jsval \<Rightarrow> exn + adapted" where
  "later_rules rt predToolType out =
     (if truthy (get_prop out ''claims'') \<and> is_array (get_prop out ''claims'')
         \<and> (predToolType = Some Claim_Extractor \<or> predToolType = Some Contradiction_Checker)
      then (case map_exn (claim_line rt) (elems (get_prop out ''claims'')) of
              Inl e \<Rightarrow> Inl e
            | Inr ls \<Rightarrow> Inr (Text (join (newline @ ''---'' @ newline) ls)))
      else if truthy (get_prop out ''review'') \<and> is_string (get_prop out ''review'')
      then Inr (Text (toString rt (get_prop out ''review'')))
      else if truthy (get_prop out ''text'') \<and> is_string (get_prop out ''text'')
      then Inr (Text (toString rt (get_prop out ''text'')))
      else (case out of
              JStr s \<Rightarrow> Inr (Text s)
            | _ \<Rightarrow> Inr (Text (JSON_stringify_pretty rt out))))"

definition getInputFromPredecessorNode ::
  "runtime \<Rightarrow> string \<Rightarrow> edge list \<Rightarrow> node list \<Rightarrow> ToolType option \<Rightarrow> exn + adapted" where
  "getInputFromPredecessorNode rt nodeId currentEdges currentNodes toolTypeForContext =
     (case find (\<lambda>e. target e = Node_id nodeId) currentEdges of
        None \<Rightarrow> Inr No_input
      | Some incomingEdge \<Rightarrow>
          (case find (\<lambda>n. Node_id (id_node n) = source incomingEdge) currentNodes of
             None \<Rightarrow> Inr No_input
           | Some predNode \<Rightarrow>
               let out = output_data (data predNode);
                   predToolType = toolType (data predNode)
               in if \<not> truthy out then Inr No_input
                  else if toolTypeForContext = Some AI_Literature_Review
                          \<and> truthy (get_prop out ''papers'') \<and> is_array (get_prop out ''papers'')
                  then Inr (Papers (elems (get_prop out ''papers'')))
                  else if truthy (get_prop out ''papers'')
                          \<and> (predToolType = Some Source_Finder \<or> predToolType = None)
                  then (case get_prop out ''papers'' of
                          JArr ps \<Rightarrow>
                            (case map_exn (paper_line rt) ps of
                               Inl e \<Rightarrow> Inl e
                             | Inr ls \<Rightarrow> Inr (Text (join newline ls)))
                        | _ \<Rightarrow> Inl TypeError)
                  else later_rules rt predToolType out))"

text \<open>Whether the node has a predecessor with an output: an incoming edge, found first,
  whose source is a node of the graph with a truthy \<^verbatim>\<open>output\<close>.\<close>

definition has_predecessor_output :: "string \<Rightarrow> edge list \<Rightarrow> node list \<Rightarrow> bool" where
  "has_predecessor_output nodeId es ns =
     (case find (\<lambda>e. target e = Node_id nodeId) es of
        None \<Rightarrow> False
      | Some e \<Rightarrow>
          (case find (\<lambda>n. Node_id (id_node n) = source e) ns of
             None \<Rightarrow> False
           | Some pn \<Rightarrow> truthy (output_data (data pn))))"

section \<open>Tool invocation: handleToolExecution\<close>

text \<open>\<^verbatim>\<open>a || b\<close> for an optional string \<open>a\<close>: absent and empty are both falsy.\<close>

definition or_else :: "string option \<Rightarrow> string \<Rightarrow> string" where
  "or_else a b = (case a of Some s \<Rightarrow> if s \<noteq> [] then s else b | None \<Rightarrow> b)"

definition js_of :: "string option \<Rightarrow> jsval" where
  "js_of a = (case a of Some s \<Rightarrow> JStr s | None \<Rightarrow> JUndefined)"

text \<open>\<^verbatim>\<open>typeof extractedInput === 'string' ? extractedInput : ''\<close>\<close>

definition string_or_empty :: "adapted \<Rightarrow> string" where
  "string_or_empty a = (case a of Text s \<Rightarrow> s | _ \<Rightarrow> [])"

text \<open>\<^verbatim>\<open>getInputFromPredecessorNode(...) || (config.prompt || '')\<close>\<close>

definition adapted_or :: "adapted \<Rightarrow> string \<Rightarrow> jsval" where
  "adapted_or a b =
     (case a of
        Papers ps \<Rightarrow> JArr ps
      | Text s \<Rightarrow> if s \<noteq> [] then JStr s else JStr b
      | No_input \<Rightarrow> JStr b)"

fun toolType_name :: "ToolType option \<Rightarrow> string" where
  "toolType_name None = ''undefined''"
| "toolType_name (Some Source_Finder) = ''Source Finder''"
| "toolType_name (Some Contradiction_Checker) = ''Contradiction Checker''"
| "toolType_name (Some Data_Analysis) = ''Data Analysis''"
| "toolType_name (Some Claim_Extractor) = ''Claim Extractor''"
| "toolType_name (Some AI_Literature_Review) = ''AI Literature Review''"
| "toolType_name (Some Reference_Citation_Management) = ''Reference & Citation Management''"
| "toolType_name (Some Export_TXT) = ''Export TXT''"
| "toolType_name (Some Export_DOC) = ''Export DOC''"

text \<open>The call a node makes: through \<^verbatim>\<open>fetchApiAndParse\<close>, or one of the two exports
  (with the file name they report).\<close>

datatype call = Api request | Export_txt request string | Export_doc request string

fun request_of :: "call \<Rightarrow> request" where
  "request_of (Api r) = r"
| "request_of (Export_txt r f) = r"
| "request_of (Export_doc r f) = r"

text \<open>
  The \<^verbatim>\<open>switch (toolType)\<close> of \<^verbatim>\<open>handleToolExecution\<close> up to the point where the request
  is sent: either an exception thrown before any request, or the console warnings and
  the call to make.
\<close>

definition build_call ::
  "runtime \<Rightarrow> string \<Rightarrow> edge list \<Rightarrow> node list \<Rightarrow> ToolType option \<Rightarrow> ToolConfig
     \<Rightarrow> exn + (string list \<times> call)" where
  "build_call rt nodeId es ns tt cfg =
     (case tt of
        Some Source_Finder \<Rightarrow>
          Inr ([], Api \<lparr>url = ''/api/source-finder/search'',
                        body = [(''query'', js_of (prompt cfg)), (''model'', js_of (model cfg))]\<rparr>)
      | Some Claim_Extractor \<Rightarrow>
          (case getInputFromPredecessorNode rt nodeId es ns None of
             Inl e \<Rightarrow> Inl e
           | Inr extractedInput \<Rightarrow>
               let inputText = or_else (prompt cfg) (string_or_empty extractedInput)
               in if inputText = []
                  then Inl (Failure
                    ''Claim Extractor requires an input prompt or a connection providing text output.'')
                  else Inr ([], Api \<lparr>url = ''/api/claim-extractor/extract'',
                                      body = [(''prompt'', JStr inputText),
                                              (''model'', js_of (model cfg))]\<rparr>))
      | Some Contradiction_Checker \<Rightarrow>
          (case getInputFromPredecessorNode rt nodeId es ns None of
             Inl e \<Rightarrow> Inl e
           | Inr extractedInput \<Rightarrow>
               let inputText = or_else (prompt cfg) (string_or_empty extractedInput)
               in if inputText = []
                  then Inl (Failure
                    ''Contradiction Checker requires an input prompt or connection with text/claims output.'')
                  else Inr ([], Api \<lparr>url = ''/api/contradiction-check/check'',
                                      body = [(''text'', JStr inputText),
                                              (''modelId'', js_of (model cfg))]\<rparr>))
      | Some AI_Literature_Review \<Rightarrow>
          (case getInputFromPredecessorNode rt nodeId es ns (Some AI_Literature_Review) of
             Inl e \<Rightarrow> Inl e
           | Inr predecessorOutput \<Rightarrow>
               let papersInput = (case predecessorOutput of Papers ps \<Rightarrow> ps | _ \<Rightarrow> [])
               in Inr ([], Api \<lparr>url = ''/api/literature-review/generate'',
                                 body = [(''reviewTopicScope'', js_of (reviewTopicScope cfg)),
                                         (''reviewType'', js_of (reviewType cfg)),
                                         (''reviewDepthLength'', js_of (reviewDepthLength cfg)),
                                         (''reviewTone'', js_of (reviewTone cfg)),
                                         (''yearFrom'', js_of (yearFrom cfg)),
                                         (''yearTo'', js_of (yearTo cfg)),
                                         (''papers'', JArr papersInput),
                                         (''model'', js_of (model cfg))]\<rparr>))
      | Some Reference_Citation_Management \<Rightarrow>
          (let referencesInputFromConfig = or_else (referencesInput cfg) []
           in (case getInputFromPredecessorNode rt nodeId es ns None of
                 Inl e \<Rightarrow> Inl e
               | Inr extractedInput \<Rightarrow>
                   let inputStr = (if referencesInputFromConfig \<noteq> [] then referencesInputFromConfig
                                   else string_or_empty extractedInput)
                   in Inr (if inputStr = []
                           then [''Reference tool has no input string from config or predecessor.'']
                           else [],
                           Api \<lparr>url = ''/api/reference-management/format'',
                                body = [(''referencesInput'', JStr inputStr),
                                        (''citationStyle'', js_of (citationStyle cfg)),
                                        (''model'', js_of (model cfg))]\<rparr>)))
      | Some Export_TXT \<Rightarrow>
          (case getInputFromPredecessorNode rt nodeId es ns None of
             Inl e \<Rightarrow> Inl e
           | Inr a \<Rightarrow>
               let exportContent = adapted_or a (or_else (prompt cfg) []);
                   fileName = or_else (exportFileName cfg) ''export.txt''
               in Inr ([], Export_txt \<lparr>url = ''/api/export-tools/txt'',
                                        body = [(''exportData'', exportContent),
                                                (''exportFileName'', JStr fileName)]\<rparr> fileName))
      | Some Export_DOC \<Rightarrow>
          (case getInputFromPredecessorNode rt nodeId es ns None of
             Inl e \<Rightarrow> Inl e
           | Inr a \<Rightarrow>
               let exportContent = adapted_or a (or_else (prompt cfg) []);
                   fileName = or_else (exportFileName cfg) ''export.doc''
               in Inr ([], Export_doc \<lparr>url = ''/api/export-tools/doc'',
                                        body = [(''content'', exportContent),
                                                (''fileName'', JStr fileName)]\<rparr> fileName))
      | _ \<Rightarrow> Inl (Failure (''Unknown or unhandled tool type: '' @ toolType_name tt)))"

text \<open>Sending the request and shaping \<^verbatim>\<open>responseData\<close>; the TXT export also hands the
  received blob to the user as a download.\<close>

definition perform ::
  "runtime \<Rightarrow> call \<Rightarrow> exn + (jsval \<times> (string \<times> download_content) list)" where
  "perform rt c =
     (case c of
        Api r \<Rightarrow>
          (case fetchApiAndParse rt r of Inl m \<Rightarrow> Inl (Failure m) | Inr j \<Rightarrow> Inr (j, []))
      | Export_txt r fileName \<Rightarrow>
          (case fetch_export rt r of
             Inl m \<Rightarrow> Inl (Failure m)
           | Inr blob \<Rightarrow>
               Inr (JObj [(''message'', JStr ''File downloaded successfully''),
                          (''fileName'', JStr fileName)],
                    [(fileName, Blob blob)]))
      | Export_doc r fileName \<Rightarrow>
          (case fetch_export rt r of
             Inl m \<Rightarrow> Inl (Failure m)
           | Inr docHtmlContent \<Rightarrow>
               Inr (JObj [(''content'', JStr docHtmlContent),
                          (''message'', JStr ''Export successful''),
                          (''fileName'', JStr fileName)],
                    [])))"

definition message :: "runtime \<Rightarrow> exn \<Rightarrow> string" where
  "message rt e = (case e of TypeError \<Rightarrow> typeError_message rt | Failure m \<Rightarrow> m)"

text \<open>The two final \<^verbatim>\<open>setNodes\<close> updates: only the node with the executed id changes.\<close>

definition set_result :: "status \<Rightarrow> jsval \<Rightarrow> string \<Rightarrow> string \<Rightarrow> node \<Rightarrow> node" where
  "set_result st out sid nodeId n =
     (if id_node n = nodeId
      then n\<lparr>data := (data n)\<lparr>status := st, output_data := out, sessionId := Some sid\<rparr>\<rparr>
      else n)"

definition fail_node :: "runtime \<Rightarrow> exn \<Rightarrow> string \<Rightarrow> string \<Rightarrow> ToolType option \<Rightarrow> world \<Rightarrow> world" where
  "fail_node rt e sid nodeId tt w =
     w\<lparr>console := console w
          @ [''Error running node '' @ nodeId @ '' ('' @ toolType_name tt @ '')''],
       nodes := map (set_result Error (JObj [(''error'', JStr (message rt e))]) sid nodeId)
                    (nodes w)\<rparr>"

text \<open>
  One execution of \<^verbatim>\<open>handleToolExecution(nodeId)\<close>, taken as a single step on the world
  (no other handler runs while the request is awaited). \<open>fresh\<close> is the session id the
  execution would mint (\<^verbatim>\<open>tool_<time>_<random>\<close>).
\<close>

definition handleToolExecution :: "runtime \<Rightarrow> string \<Rightarrow> string \<Rightarrow> world \<Rightarrow> world" where
  "handleToolExecution rt fresh nodeId w =
     (case find (\<lambda>n. id_node n = nodeId) (nodes w) of
        None \<Rightarrow> w\<lparr>console := console w @ [''Node '' @ nodeId @ '' not found for execution.'']\<rparr>
      | Some nodeToExecute \<Rightarrow>
          (let tt = toolType (data nodeToExecute);
               sid = or_else (sessionId (data nodeToExecute)) fresh
           in (case build_call rt nodeId (edges w) (nodes w) tt (config (data nodeToExecute)) of
                 Inl e \<Rightarrow> fail_node rt e sid nodeId tt w
               | Inr (warnings, c) \<Rightarrow>
                   (let w1 = w\<lparr>console := console w @ warnings,
                              requests := requests w @ [request_of c]\<rparr>
                    in (case perform rt c of
                          Inl e \<Rightarrow> fail_node rt e sid nodeId tt w1
                        | Inr (responseData, files) \<Rightarrow>
                            w1\<lparr>downloads := downloads w1 @ files,
                               nodes := map (set_result Success responseData sid nodeId)
                                            (nodes w1)\<rparr>)))))"

section \<open>Editing: drop, clipboard, undo and redo, presets\<close>

text \<open>\<^verbatim>\<open>ids.includes(e.source)\<close> for a list of node ids.\<close>

definition ids_include :: "string list \<Rightarrow> endpoint \<Rightarrow> bool" where
  "ids_include ids x = (case x of Node_id s \<Rightarrow> s \<in> set ids | _ \<Rightarrow> False)"

definition selected_ids :: "world \<Rightarrow> string list" where
  "selected_ids w = map id_node (fst (selection w))"

text \<open>\<^verbatim>\<open>onSelectionChange\<close>: the canvas reports the selected nodes and edges.\<close>

definition onSelectionChangeHandler :: "node list \<Rightarrow> edge list \<Rightarrow> world \<Rightarrow> world" where
  "onSelectionChangeHandler selNodes selEdges w = w\<lparr>selection := (selNodes, selEdges)\<rparr>"

text \<open>\<^verbatim>\<open>tool.replace(/\s+/g, '')\<close> on ASCII text.\<close>

definition remove_whitespace :: "string \<Rightarrow> string" where
  "remove_whitespace s =
     filter (\<lambda>c. c \<notin> set [CHR 0x20, CHR 0x09, CHR 0x0A, CHR 0x0B, CHR 0x0C, CHR 0x0D]) s"

text \<open>\<^verbatim>\<open>onDrop\<close> with an initialised canvas and a tool from the sidebar, at flow position \<open>pos\<close>.\<close>

definition onDrop :: "ToolType \<Rightarrow> int \<times> int \<Rightarrow> world \<Rightarrow> world" where
  "onDrop tool pos w =
     (let newId = remove_whitespace (toolType_name (Some tool)) @ ''_'' @ show_nat (idCounter w);
          newNode = \<lparr>id_node = newId, position = pos, dragHandle = Some ''.drag-handle'',
                     data = \<lparr>id_data = newId, label = toolType_name (Some tool),
                             toolType = Some tool, config = empty_config, status = Pending,
                             output_data = JUndefined, sessionId = None\<rparr>\<rparr>
      in w\<lparr>nodes := nodes w @ [newNode], idCounter := idCounter w + 1\<rparr>)"

text \<open>The cases of \<^verbatim>\<open>handleGlobalKey\<close> (outside a text field, with the platform's
  modifier key held) and \<^verbatim>\<open>handleDelete\<close>.\<close>

definition copy_selection :: "world \<Rightarrow> world" where
  "copy_selection w =
     (if fst (selection w) \<noteq> []
      then let ids = selected_ids w
           in w\<lparr>copyBuffer :=
                  Some (filter (\<lambda>n. id_node n \<in> set ids) (nodes w),
                        filter (\<lambda>e. ids_include ids (source e) \<and> ids_include ids (target e)) (edges w))\<rparr>
      else w)"

definition cut_selection :: "world \<Rightarrow> world" where
  "cut_selection w =
     (if fst (selection w) \<noteq> []
      then let ids = selected_ids w;
               nodesToCut = filter (\<lambda>n. id_node n \<in> set ids) (nodes w);
               edgesToCut = filter (\<lambda>e. ids_include ids (source e) \<and> ids_include ids (target e)) (edges w)
           in w\<lparr>copyBuffer := Some (nodesToCut, edgesToCut),
                 lastAction := Some \<lparr>type_action = cut, nodes_action = nodesToCut,
                                      edges_action = edgesToCut\<rparr>,
                 nodes := filter (\<lambda>n. id_node n \<notin> set ids) (nodes w),
                 edges := filter (\<lambda>e. \<not> ids_include ids (source e) \<and> \<not> ids_include ids (target e))
                                 (edges w),
                 selection := ([], [])\<rparr>
      else w)"

text \<open>
  Paste. The node at index \<open>i\<close> of the buffer takes the counter value \<open>c + i\<close>; the edges
  take the following values.
\<close>

definition pasted_node :: "nat \<Rightarrow> node \<Rightarrow> node" where
  "pasted_node k n =
     (let newId = id_node n @ ''_'' @ show_nat k
      in n\<lparr>id_node := newId, dragHandle := Some ''.drag-handle'',
            data := (data n)\<lparr>id_data := newId\<rparr>,
            position := (fst (position n) + 40, snd (position n) + 40)\<rparr>)"

definition pasted_nodes :: "nat \<Rightarrow> node list \<Rightarrow> node list" where
  "pasted_nodes c ns = map (\<lambda>(i, n). pasted_node i n) (enumerate c ns)"

text \<open>
  The table \<^verbatim>\<open>oldToNew\<close> is an object literal. \<^verbatim>\<open>oldToNew[n.id] = newId\<close> overwrites an
  earlier entry for the same key, so the table is read from its latest entry; for the key
  \<^verbatim>\<open>__proto__\<close> the assignment of a string stores nothing. A read converts the endpoint to
  a property key first: \<^verbatim>\<open>undefined\<close> gives \<^verbatim>\<open>"undefined"\<close>, \<^verbatim>\<open>Object.prototype\<close> gives
  \<^verbatim>\<open>"[object Object]"\<close> and a built-in function gives its source text, written here as V8
  prints it. A key with no entry reads the property of \<^verbatim>\<open>Object.prototype\<close> of that name,
  if there is one.
\<close>

definition object_prototype_keys :: "string list" where
  "object_prototype_keys =
     [''constructor'', ''__defineGetter__'', ''__defineSetter__'', ''hasOwnProperty'',
      ''__lookupGetter__'', ''__lookupSetter__'', ''isPrototypeOf'', ''propertyIsEnumerable'',
      ''toString'', ''valueOf'', ''__proto__'', ''toLocaleString'']"

definition inherited_text :: "string \<Rightarrow> string" where
  "inherited_text k =
     (if k = ''__proto__'' then ''[object Object]''
      else if k = ''constructor'' then ''function Object() { [native code] }''
      else ''function '' @ k @ ''() { [native code] }'')"

definition property_key :: "endpoint \<Rightarrow> string" where
  "property_key x =
     (case x of
        Node_id s \<Rightarrow> s
      | Undefined_endpoint \<Rightarrow> ''undefined''
      | Inherited k \<Rightarrow> inherited_text k)"

definition oldToNew :: "nat \<Rightarrow> node list \<Rightarrow> (string \<times> string) list" where
  "oldToNew c ns =
     filter (\<lambda>(k, v). k \<noteq> ''__proto__'')
       (map (\<lambda>(i, n). (id_node n, id_node n @ ''_'' @ show_nat i)) (enumerate c ns))"

definition lookup_endpoint :: "(string \<times> string) list \<Rightarrow> endpoint \<Rightarrow> endpoint" where
  "lookup_endpoint tab x =
     (let k = property_key x
      in case map_of (rev tab) k of
           Some v \<Rightarrow> Node_id v
         | None \<Rightarrow> if k \<in> set object_prototype_keys then Inherited k else Undefined_endpoint)"

definition pasted_edges :: "nat \<Rightarrow> (string \<times> string) list \<Rightarrow> edge list \<Rightarrow> edge list" where
  "pasted_edges c tab es =
     map (\<lambda>(i, e). e\<lparr>id_edge := ''e_'' @ show_nat i,
                      source := lookup_endpoint tab (source e),
                      target := lookup_endpoint tab (target e)\<rparr>)
         (enumerate c es)"

definition paste_buffer :: "world \<Rightarrow> world" where
  "paste_buffer w =
     (case copyBuffer w of
        None \<Rightarrow> w
      | Some (bufNodes, bufEdges) \<Rightarrow>
          let c = idCounter w;
              newNodes = pasted_nodes c bufNodes;
              newEdges = pasted_edges (c + length bufNodes) (oldToNew c bufNodes) bufEdges
          in w\<lparr>nodes := nodes w @ newNodes,
                edges := edges w @ newEdges,
                lastAction := Some \<lparr>type_action = paste, nodes_action = newNodes,
                                     edges_action = newEdges\<rparr>,
                selection := (newNodes, newEdges),
                idCounter := c + length bufNodes + length bufEdges\<rparr>)"

definition select_all :: "world \<Rightarrow> world" where
  "select_all w = w\<lparr>selection := (nodes w, edges w)\<rparr>"

definition undo :: "world \<Rightarrow> world" where
  "undo w =
     (case lastAction w of
        None \<Rightarrow> w
      | Some a \<Rightarrow>
          (case type_action a of
             paste \<Rightarrow>
               w\<lparr>nodes := filter (\<lambda>n. id_node n \<notin> set (map id_node (nodes_action a))) (nodes w),
                 edges := filter (\<lambda>e. id_edge e \<notin> set (map id_edge (edges_action a))) (edges w),
                 redoAction := Some a, lastAction := None, selection := ([], [])\<rparr>
           | cut \<Rightarrow>
               w\<lparr>nodes := nodes w @ nodes_action a,
                 edges := edges w @ edges_action a,
                 redoAction := Some a, lastAction := None, selection := ([], [])\<rparr>))"

definition redo :: "world \<Rightarrow> world" where
  "redo w =
     (case redoAction w of
        None \<Rightarrow> w
      | Some a \<Rightarrow>
          (case type_action a of
             paste \<Rightarrow>
               w\<lparr>nodes := nodes w @ nodes_action a,
                 edges := edges w @ edges_action a,
                 lastAction := Some a, redoAction := None\<rparr>
           | cut \<Rightarrow>
               w\<lparr>nodes := filter (\<lambda>n. id_node n \<notin> set (map id_node (nodes_action a))) (nodes w),
                 edges := filter (\<lambda>e. id_edge e \<notin> set (map id_edge (edges_action a))) (edges w),
                 lastAction := Some a, redoAction := None\<rparr>))"

definition handleDelete :: "world \<Rightarrow> world" where
  "handleDelete w =
     (if fst (selection w) \<noteq> []
      then let ids = selected_ids w
           in w\<lparr>nodes := filter (\<lambda>n. id_node n \<notin> set ids) (nodes w),
                 edges := filter (\<lambda>e. \<not> ids_include ids (source e) \<and> \<not> ids_include ids (target e))
                                 (edges w),
                 selection := ([], [])\<rparr>
      else w)"

text \<open>The presets of presets.ts and \<^verbatim>\<open>onApplyPreset\<close>, which replaces the graph.\<close>

definition preset_edge :: "string \<Rightarrow> string \<Rightarrow> string \<Rightarrow> edge" where
  "preset_edge i s t = \<lparr>id_edge = i, source = Node_id s, target = Node_id t\<rparr>"

definition basicResearchWorkflow :: "node list \<times> edge list" where
  "basicResearchWorkflow =
     ([createToolNode ''basic_src'' ''Source Finder'' Source_Finder 50 50,
       createToolNode ''basic_review'' ''AI Literature Review'' AI_Literature_Review 450 50,
       createToolNode ''basic_export'' ''Export TXT'' Export_TXT 850 50],
      [preset_edge ''e1'' ''basic_src'' ''basic_review'',
       preset_edge ''e2'' ''basic_review'' ''basic_export''])"

definition factCheckWorkflow :: "node list \<times> edge list" where
  "factCheckWorkflow =
     ([createToolNode ''fact_src'' ''Source Finder'' Source_Finder 50 150,
       createToolNode ''fact_claim'' ''Claim Extractor'' Claim_Extractor 450 150,
       createToolNode ''fact_contra'' ''Contradiction Checker'' Contradiction_Checker 850 150,
       createToolNode ''fact_export'' ''Export DOC'' Export_DOC 1250 150],
      [preset_edge ''e3'' ''fact_src'' ''fact_claim'',
       preset_edge ''e4'' ''fact_claim'' ''fact_contra'',
       preset_edge ''e5'' ''fact_contra'' ''fact_export''])"

definition bibliographyWorkflow :: "node list \<times> edge list" where
  "bibliographyWorkflow =
     ([createToolNode ''bib_src'' ''Source Finder'' Source_Finder 50 250,
       createToolNode ''bib_ref'' ''Reference & Citation Management''
         Reference_Citation_Management 450 250,
       createToolNode ''bib_export'' ''Export TXT'' Export_TXT 850 250],
      [preset_edge ''e6'' ''bib_src'' ''bib_ref'',
       preset_edge ''e7'' ''bib_ref'' ''bib_export''])"

definition literatureReviewWorkflow :: "node list \<times> edge list" where
  "literatureReviewWorkflow =
     ([createToolNode ''lit_src'' ''Source Finder'' Source_Finder 50 350,
       createToolNode ''lit_review'' ''AI Literature Review'' AI_Literature_Review 450 350,
       createToolNode ''lit_export'' ''Export DOC'' Export_DOC 850 350],
      [preset_edge ''e8'' ''lit_src'' ''lit_review'',
       preset_edge ''e9'' ''lit_review'' ''lit_export''])"

definition onApplyPreset :: "node list \<times> edge list \<Rightarrow> world \<Rightarrow> world" where
  "onApplyPreset preset w = w\<lparr>nodes := fst preset, edges := snd preset\<rparr>"

text \<open>
  \<^verbatim>\<open>handleChatWorkflowGenerated\<close>: the nodes and edges a chat request returned are appended
  as they come, laid out in a row below the lowest node; the id counter is not consulted.
\<close>

definition handleChatWorkflowGenerated :: "node list \<Rightarrow> edge list \<Rightarrow> world \<Rightarrow> world" where
  "handleChatWorkflowGenerated newNodesFromChat newEdges w =
     (let baseY = (case map (\<lambda>n. snd (position n)) (nodes w) of
                     [] \<Rightarrow> 100
                   | y # ys \<Rightarrow> fold max ys y + 150 + 150);
          rewiredNewNodes =
            map (\<lambda>(index, node).
                   node\<lparr>dragHandle := Some ''.drag-handle'',
                        position := (100 + int index * 350, baseY),
                        data := (data node)\<lparr>id_data := id_node node\<rparr>\<rparr>)
                (enumerate 0 newNodesFromChat)
      in w\<lparr>nodes := nodes w @ rewiredNewNodes, edges := edges w @ newEdges\<rparr>)"

text \<open>\<^verbatim>\<open>generateDefaultWorkflow\<close> of aiAssistantRoutes.ts, the workflow the server answers
  with when it cannot build one from the request; \<open>existingNodeCount\<close> is the number of
  nodes the client reported.\<close>

definition generateDefaultWorkflow :: "nat \<Rightarrow> node list \<times> edge list" where
  "generateDefaultWorkflow existingNodeCount =
     (let sourceId = ''SourceFinder_'' @ show_nat (existingNodeCount + 1);
          exportId = ''ExportTXT_'' @ show_nat (existingNodeCount + 2)
      in ([\<lparr>id_node = sourceId, position = (100, 100), dragHandle = None,
             data = \<lparr>id_data = sourceId, label = ''Source Finder'',
                     toolType = Some Source_Finder,
                     config = empty_config\<lparr>prompt := Some ''transformers''\<rparr>,
                     status = Pending, output_data = JUndefined, sessionId = None\<rparr>\<rparr>,
           \<lparr>id_node = exportId, position = (100, 350), dragHandle = None,
             data = \<lparr>id_data = exportId, label = ''Export TXT'', toolType = Some Export_TXT,
                     config = empty_config\<lparr>exportFileName := Some ''transformer_papers.txt''\<rparr>,
                     status = Pending, output_data = JUndefined, sessionId = None\<rparr>\<rparr>],
          [\<lparr>id_edge = ''edge_'' @ sourceId @ ''_to_'' @ exportId,
             source = Node_id sourceId, target = Node_id exportId\<rparr>]))"

text \<open>The editing commands, and the world after a sequence of them.\<close>

datatype command =
    Drop ToolType "int \<times> int"
  | Select "node list" "edge list"
  | Copy
  | Cut
  | Paste
  | Select_all
  | Undo
  | Redo
  | Delete
  | Apply_preset "node list \<times> edge list"
  | Load parsed
  | Chat_generated "node list" "edge list"

fun exec :: "command \<Rightarrow> world \<Rightarrow> world" where
  "exec (Drop tool pos) w = onDrop tool pos w"
| "exec (Select ns es) w = onSelectionChangeHandler ns es w"
| "exec Copy w = copy_selection w"
| "exec Cut w = cut_selection w"
| "exec Paste w = paste_buffer w"
| "exec Select_all w = select_all w"
| "exec Undo w = undo w"
| "exec Redo w = redo w"
| "exec Delete w = handleDelete w"
| "exec (Apply_preset p) w = onApplyPreset p w"
| "exec (Load p) w = onLoadWorkflow p w"
| "exec (Chat_generated ns es) w = handleChatWorkflowGenerated ns es w"

fun run_commands :: "command list \<Rightarrow> world \<Rightarrow> world" where
  "run_commands [] w = w"
| "run_commands (c # cs) w = run_commands cs (exec c w)"

fun is_edit :: "command \<Rightarrow> bool" where
  "is_edit (Apply_preset p) = False"
| "is_edit (Load p) = False"
| "is_edit (Chat_generated ns es) = False"
| "is_edit c = True"

section \<open>Concrete graphs\<close>

text \<open>A node that has finished with an output.\<close>

definition done_node :: "string \<Rightarrow> ToolType \<Rightarrow> jsval \<Rightarrow> node" where
  "done_node i t out =
     \<lparr>id_node = i, position = (0, 0), dragHandle = Some ''.drag-handle'',
      data = \<lparr>id_data = i, label = toolType_name (Some t), toolType = Some t,
              config = empty_config, status = Success, output_data = out,
              sessionId = Some ''tool_1''\<rparr>\<rparr>"

text \<open>A run in flight: \<open>a\<close> has succeeded, \<open>b\<close> is marked running and its timer is pending.\<close>

definition stop_example :: world where
  "stop_example =
     initial_world
       \<lparr>nodes := [done_node ''a'' Source_Finder (JObj [(''papers'', JArr [])]),
                  set_status Running (createToolNode ''b'' ''Export TXT'' Export_TXT 400 0)],
        edges := [preset_edge ''e1'' ''a'' ''b''],
        runningWorkflow := True,
        timers := [\<lparr>timer_id = 7, timer_node = ''b'', timer_delay = 50\<rparr>],
        workflowExecutionRefs := [5, 5, 7]\<rparr>"

text \<open>Two nodes on a cycle: neither is a root.\<close>

definition cycle_example :: world where
  "cycle_example =
     initial_world
       \<lparr>nodes := [createToolNode ''a'' ''Claim Extractor'' Claim_Extractor 0 0,
                  createToolNode ''b'' ''Export TXT'' Export_TXT 400 0],
        edges := [preset_edge ''e1'' ''a'' ''b'', preset_edge ''e2'' ''b'' ''a'']\<rparr>"

text \<open>A graph whose only node has completed.\<close>

definition saved_example :: world where
  "saved_example =
     initial_world\<lparr>nodes := [done_node ''a'' Source_Finder (JObj [(''papers'', JArr [])])]\<rparr>"

definition doc_without_edges :: workflow_doc where
  "doc_without_edges =
     \<lparr>doc_nodes = Some [createToolNode ''x'' ''Export TXT'' Export_TXT 0 0],
      doc_edges = None, savedAt = Some ''2025-01-01T00:00:00.000Z''\<rparr>"

text \<open>A runtime for the concrete graphs: every back end answers successfully. The
  serialisers and the rendering of large numbers are not reached on these graphs.\<close>

definition test_runtime :: runtime where
  "test_runtime =
     \<lparr>JSON_stringify_pretty = (\<lambda>v. ''{}''), JSON_stringify = (\<lambda>v. ''{}''),
      number_text = (\<lambda>i. ''1e+21''), typeError_message = ''TypeError'',
      fetchApiAndParse = (\<lambda>r. Inr (JObj [(''ok'', JBool True)])),
      fetch_export = (\<lambda>r. Inr ''file body'')\<rparr>"

definition paper1 :: jsval where
  "paper1 = JObj [(''arxiv_id'', JStr ''1''), (''title'', JStr ''Deep Learning''),
                  (''authors'', JArr [JStr ''Y. LeCun'', JStr ''Y. Bengio'']),
                  (''published'', JStr ''2015'')]"

definition paper2 :: jsval where
  "paper2 = JObj [(''arxiv_id'', JStr ''2''), (''title'', JStr ''Attention''),
                  (''authors'', JArr [JStr ''A. Vaswani'']),
                  (''published'', JStr ''2017'')]"

text \<open>\<^verbatim>\<open>[a (Source Finder)] -> [b (Claim Extractor)]\<close>, \<open>a\<close> done with two papers.\<close>

definition search_to_extract :: world where
  "search_to_extract =
     initial_world
       \<lparr>nodes := [done_node ''a'' Source_Finder (JObj [(''papers'', JArr [paper1, paper2])]),
                  createToolNode ''b'' ''Claim Extractor'' Claim_Extractor 400 0],
        edges := [preset_edge ''e1'' ''a'' ''b'']\<rparr>"

text \<open>\<^verbatim>\<open>[a (AI Literature Review)] -> [b (Export TXT)]\<close>; the review response carries the
  review text and the papers it was given.\<close>

definition review_to_export :: world where
  "review_to_export =
     initial_world
       \<lparr>nodes := [done_node ''a'' AI_Literature_Review
                    (JObj [(''review'', JStr ''A survey.''), (''papers'', JArr [paper1])]),
                  createToolNode ''b'' ''Export TXT'' Export_TXT 400 0],
        edges := [preset_edge ''e1'' ''a'' ''b'']\<rparr>"



text \<open>An export node with no connection and an empty config.\<close>

definition lone_export :: world where
  "lone_export = initial_world\<lparr>nodes := [createToolNode ''x'' ''Export TXT'' Export_TXT 0 0]\<rparr>"

text \<open>A Claim Extractor whose predecessor has not produced an output, beside a finished
  node \<open>c\<close>.\<close>

definition pending_to_extract :: world where
  "pending_to_extract =
     initial_world
       \<lparr>nodes := [createToolNode ''a'' ''Source Finder'' Source_Finder 0 0,
                  createToolNode ''b'' ''Claim Extractor'' Claim_Extractor 400 0,
                  done_node ''c'' Source_Finder (JObj [(''papers'', JArr [paper1])])],
        edges := [preset_edge ''e1'' ''a'' ''b'']\<rparr>"

text \<open>The line the specification gives for a paper:
  \<^verbatim>\<open>"<title>. <authors> (<year>)"\<close>.\<close>

definition spec_paper_line :: "string \<Rightarrow> string \<Rightarrow> string \<Rightarrow> string" where
  "spec_paper_line title authors year = title @ ''. '' @ authors @ '' ('' @ year @ '')''"

text \<open>
  Three sessions, each starting from the initial state (the id counter restarts at 1).
  In the first a Source Finder is dropped and the workflow saved. In the second that
  document is loaded, its node copied and pasted, and the workflow saved again. In the
  third the second document is loaded, everything selected and copied.
\<close>

definition first_session_doc :: workflow_doc where
  "first_session_doc =
     workflowData (run_commands [Drop Source_Finder (0, 0)] initial_world)
       ''2025-01-01T00:00:00.000Z''"

definition earlier_session_doc :: workflow_doc where
  "earlier_session_doc =
     workflowData
       (run_commands [Load (Document first_session_doc), Select_all, Copy, Paste] initial_world)
       ''2025-01-02T00:00:00.000Z''"

definition collision_example :: world where
  "collision_example =
     run_commands [Load (Document earlier_session_doc), Select_all, Copy] initial_world"

text \<open>The Basic Research preset, all of it copied.\<close>

definition copied_preset :: world where
  "copied_preset =
     run_commands [Apply_preset basicResearchWorkflow, Select_all, Copy] initial_world"

section \<open>An invariant of the editing commands\<close>

text \<open>
  Drop and paste mint the id \<^verbatim>\<open><base>_<counter>\<close>. \<open>minted k s\<close> says that \<open>s\<close> has this form
  for the counter value \<open>k\<close>. The invariant: the node ids of the graph are distinct; no id
  in the graph, the copy buffer or the two history slots has the form of a counter value
  still to come; the nodes of each history slot have distinct ids; the nodes of an undoable
  cut and those of a redoable paste are not in the graph.
\<close>

definition minted :: "nat \<Rightarrow> string \<Rightarrow> bool" where
  "minted k s \<longleftrightarrow> (\<exists>b. s = b @ ''_'' @ show_nat k)"

definition buffer_nodes :: "world \<Rightarrow> node list" where
  "buffer_nodes w = (case copyBuffer w of None \<Rightarrow> [] | Some (ns, es) \<Rightarrow> ns)"

definition action_nodes :: "action option \<Rightarrow> node list" where
  "action_nodes a = (case a of None \<Rightarrow> [] | Some x \<Rightarrow> nodes_action x)"

definition known_ids :: "world \<Rightarrow> string set" where
  "known_ids w =
     id_node ` (set (nodes w) \<union> set (buffer_nodes w) \<union> set (action_nodes (lastAction w))
                \<union> set (action_nodes (redoAction w)))"

definition ids_below :: "nat \<Rightarrow> string set \<Rightarrow> bool" where
  "ids_below c S \<longleftrightarrow> (\<forall>s\<in>S. \<forall>k\<ge>c. \<not> minted k s)"

definition clipboard_inv :: "world \<Rightarrow> bool" where
  "clipboard_inv w \<longleftrightarrow>
     distinct (map id_node (nodes w))
     \<and> ids_below (idCounter w) (known_ids w)
     \<and> distinct (map id_node (action_nodes (lastAction w)))
     \<and> distinct (map id_node (action_nodes (redoAction w)))
     \<and> (\<forall>a. lastAction w = Some a \<and> type_action a = cut \<longrightarrow>
            id_node ` set (nodes_action a) \<inter> id_node ` set (nodes w) = {})
     \<and> (\<forall>a. redoAction w = Some a \<and> type_action a = paste \<longrightarrow>
            id_node ` set (nodes_action a) \<inter> id_node ` set (nodes w) = {})"

section \<open>Properties of the scheduler\<close>

lemma map_status_set_status:
  "map ((\<lambda>n. status (data n)) \<circ> set_status s) ns = replicate (length ns) s"
  by (induction ns) (simp_all add: set_status_def)

text \<open>A run that finds no root marks every node running and schedules nothing; a stop
  right after a run on a quiet timer table leaves no timer behind.\<close>

lemma onRunWorkflow_no_roots:
  assumes "nodes w \<noteq> []" and "rootNodes (nodes w) (edges w) = []"
  shows "onRunWorkflow w
         = w\<lparr>nodes := map (set_status Running) (nodes w), runningWorkflow := False,
             console := console w @ [''No root nodes found in workflow'']\<rparr>"
  using assms by (simp add: onRunWorkflow_def Let_def)

lemma stop_after_run_clears_timers:
  assumes "timers w = []"
  shows "timers (onStopWorkflow (onRunWorkflow w)) = []"
  using assms by (auto simp: onStopWorkflow_def onRunWorkflow_def Let_def filter_empty_conv)

text \<open>
  C1, as stated: after \<^verbatim>\<open>stop()\<close> a node that was \<^verbatim>\<open>success\<close> or \<^verbatim>\<open>error\<close> keeps that
  status. It does not: in \<open>stop_example\<close> the first node is \<open>Success\<close> before the stop and
  \<open>Pending\<close> after it.
\<close>

theorem onStopWorkflow_terminal_counterexample:
  "status (data (nodes stop_example ! 0)) = Success
   \<and> status (data (nodes (onStopWorkflow stop_example) ! 0)) = Pending"
  by (simp add: stop_example_def onStopWorkflow_def initial_world_def set_status_def done_node_def)

text \<open>
  C1, amended: \<^verbatim>\<open>stop()\<close> clears every timer recorded for the run, empties the record of
  timers, sets the status of every node to \<^verbatim>\<open>pending\<close>, whatever it was, and leaves the run
  idle.
\<close>

theorem onStopWorkflow_resets_every_node:
  "map (\<lambda>n. status (data n)) (nodes (onStopWorkflow w)) = replicate (length (nodes w)) Pending
   \<and> runningWorkflow (onStopWorkflow w) = False
   \<and> workflowExecutionRefs (onStopWorkflow w) = []
   \<and> set (map timer_id (timers (onStopWorkflow w))) \<inter> set (workflowExecutionRefs w) = {}"
  by (auto simp: onStopWorkflow_def map_status_set_status)

text \<open>
  C9: \<^verbatim>\<open>stop()\<close> changes nothing of a node but its status: id, position, tool type, config,
  output and session id of every node are the same before and after, and so is the list
  of edges.
\<close>

theorem onStopWorkflow_frame:
  "list_all2 (\<lambda>n n'. id_node n' = id_node n \<and> position n' = position n
                  \<and> dragHandle n' = dragHandle n
                  \<and> id_data (data n') = id_data (data n) \<and> label (data n') = label (data n)
                  \<and> toolType (data n') = toolType (data n) \<and> config (data n') = config (data n)
                  \<and> output_data (data n') = output_data (data n)
                  \<and> sessionId (data n') = sessionId (data n))
             (nodes w) (nodes (onStopWorkflow w))
   \<and> edges (onStopWorkflow w) = edges w"
  by (simp add: onStopWorkflow_def list_all2_map2 set_status_def list.rel_refl)

text \<open>
  C2 says that a run on a graph without root nodes aborts and leaves every status as it
  was. On \<open>cycle_example\<close> the run aborts with the warning, but both nodes, \<open>Pending\<close>
  before, are left \<open>Running\<close>: the marking precedes the search for roots and the early
  return does not take it back.
\<close>

theorem onRunWorkflow_no_roots_marks_running:
  "map (\<lambda>n. status (data n)) (nodes cycle_example) = [Pending, Pending]
   \<and> rootNodes (nodes cycle_example) (edges cycle_example) = []
   \<and> map (\<lambda>n. status (data n)) (nodes (onRunWorkflow cycle_example)) = [Running, Running]
   \<and> runningWorkflow (onRunWorkflow cycle_example) = False
   \<and> console (onRunWorkflow cycle_example) = [''No root nodes found in workflow'']"
  by (simp add: cycle_example_def onRunWorkflow_def rootNodes_def initial_world_def
      set_status_def createToolNode_def preset_edge_def Let_def)

section \<open>Properties of save and load\<close>

text \<open>
  C8: a document without \<^verbatim>\<open>nodes\<close> or without \<^verbatim>\<open>edges\<close> is rejected with a console
  error, and nothing but the console changes; in particular the nodes and the edges of the
  current graph stay as they are.
\<close>

theorem onLoadWorkflow_rejects_incomplete:
  "doc_nodes d = None \<or> doc_edges d = None \<Longrightarrow>
     onLoadWorkflow (Document d) w = w\<lparr>console := console w @ [''Invalid workflow file format'']\<rparr>"
  by (auto simp: onLoadWorkflow_def split: option.splits)

theorem onLoadWorkflow_rejects_incomplete_witness:
  "doc_edges doc_without_edges = None
   \<and> nodes (onLoadWorkflow (Document doc_without_edges) saved_example) = nodes saved_example
   \<and> edges (onLoadWorkflow (Document doc_without_edges) saved_example) = edges saved_example
   \<and> console (onLoadWorkflow (Document doc_without_edges) saved_example)
       = [''Invalid workflow file format'']"
proof -
  have h: "doc_nodes doc_without_edges = None \<or> doc_edges doc_without_edges = None"
    by (simp add: doc_without_edges_def)
  show ?thesis
    using onLoadWorkflow_rejects_incomplete [OF h, of saved_example]
    by (simp add: doc_without_edges_def saved_example_def initial_world_def)
qed

lemma saved_node_fields:
  "status (data (saved_node n)) = Pending" "output_data (data (saved_node n)) = JUndefined"
  "sessionId (data (saved_node n)) = None" "id_node (saved_node n) = id_node n"
  by (simp_all add: saved_node_def)

text \<open>
  C10: saving leaves the live nodes and edges as they are; the reset of the status to
  \<^verbatim>\<open>pending\<close> and the omission of output and session id hold of the nodes of the stored
  document only.
\<close>

theorem onSaveWorkflow_keeps_live_graph:
  "nodes (onSaveWorkflow t ms w) = nodes w
   \<and> edges (onSaveWorkflow t ms w) = edges w
   \<and> (nodes w \<noteq> [] \<longrightarrow>
        (\<exists>d ns. localStorage (onSaveWorkflow t ms w) = Some d
           \<and> snd (last (downloads (onSaveWorkflow t ms w))) = Workflow_file d
           \<and> doc_nodes d = Some ns \<and> doc_edges d = Some (edges w)
           \<and> map id_node ns = map id_node (nodes w)
           \<and> list_all (\<lambda>n. status (data n) = Pending \<and> output_data (data n) = JUndefined
                            \<and> sessionId (data n) = None) ns))"
  by (auto simp: onSaveWorkflow_def workflowData_def saved_node_fields list_all_iff comp_def)

theorem onSaveWorkflow_keeps_live_graph_witness:
  "nodes saved_example \<noteq> []
   \<and> map (\<lambda>n. status (data n)) (nodes (onSaveWorkflow ''t'' 5 saved_example)) = [Success]
   \<and> map (\<lambda>n. output_data (data n)) (nodes (onSaveWorkflow ''t'' 5 saved_example))
       = [JObj [(''papers'', JArr [])]]
   \<and> (\<exists>d ns. localStorage (onSaveWorkflow ''t'' 5 saved_example) = Some d
         \<and> doc_nodes d = Some ns
         \<and> list_all (\<lambda>n. status (data n) = Pending \<and> output_data (data n) = JUndefined
                            \<and> sessionId (data n) = None) ns)"
proof -
  have ne: "nodes saved_example \<noteq> []"
    by (simp add: saved_example_def)
  have live: "nodes (onSaveWorkflow ''t'' 5 saved_example) = nodes saved_example"
    using onSaveWorkflow_keeps_live_graph [of "''t''" 5 saved_example] by simp
  have stored: "\<exists>d ns. localStorage (onSaveWorkflow ''t'' 5 saved_example) = Some d
         \<and> doc_nodes d = Some ns
         \<and> list_all (\<lambda>n. status (data n) = Pending \<and> output_data (data n) = JUndefined
                            \<and> sessionId (data n) = None) ns"
    using onSaveWorkflow_keeps_live_graph [of "''t''" 5 saved_example] ne by blast
  show ?thesis
    using ne stored by (simp add: live) (simp add: saved_example_def done_node_def)
qed

section \<open>Properties of the adapter\<close>

lemmas example_defs =
  initial_world_def done_node_def createToolNode_def preset_edge_def empty_config_def
  set_status_def

lemma array_join_strings: "array_join rt sep (map JStr as) = join sep as"
proof -
  have "map (\<lambda>x. if nullish x then [] else toString rt x) (map JStr as) = as"
    by (induction as) simp_all
  then show ?thesis by (simp add: array_join_def)
qed

lemma paper_line_typed:
  assumes "get_prop p ''title'' = JStr t" "get_prop p ''authors'' = JArr (map JStr as)"
    "get_prop p ''published'' = JStr y"
  shows "paper_line rt p = Inr (spec_paper_line t (join '', '' as) y)"
proof -
  have "\<not> nullish p" using assms(1) by (cases p) simp_all
  then show ?thesis
    using assms by (simp add: paper_line_def spec_paper_line_def array_join_strings)
qed

lemma map_exn_paper_line:
  assumes "list_all2 (\<lambda>p (t, as, y). get_prop p ''title'' = JStr t
              \<and> get_prop p ''authors'' = JArr (map JStr as)
              \<and> get_prop p ''published'' = JStr y) ps infos"
  shows "map_exn (paper_line rt) ps
         = Inr (map (\<lambda>(t, as, y). spec_paper_line t (join '', '' as) y) infos)"
  using assms
proof (induction ps infos rule: list_all2_induct)
  case Nil
  then show ?case by simp
next
  case (Cons p ps i rest)
  obtain t as y where i: "i = (t, as, y)" by (cases i)
  with Cons.hyps(1) have "paper_line rt p = Inr (spec_paper_line t (join '', '' as) y)"
    by (simp add: paper_line_typed)
  with Cons.IH i show ?case by simp
qed

text \<open>What the later rules give for the outputs the back ends of the repository produce:
  joined claims after an extractor or checker, else the review text, else the text, else
  the string itself.\<close>

lemma later_rules_review:
  assumes "predToolType \<noteq> Some Claim_Extractor" and "predToolType \<noteq> Some Contradiction_Checker"
    and "get_prop out ''review'' = JStr r" and "r \<noteq> []"
  shows "later_rules rt predToolType out = Inr (Text r)"
  using assms by (simp add: later_rules_def)

lemma later_rules_text:
  assumes "predToolType \<noteq> Some Claim_Extractor" and "predToolType \<noteq> Some Contradiction_Checker"
    and "\<not> truthy (get_prop out ''review'')"
    and "get_prop out ''text'' = JStr t" and "t \<noteq> []"
  shows "later_rules rt predToolType out = Inr (Text t)"
  using assms by (simp add: later_rules_def)

lemma later_rules_string: "later_rules rt predToolType (JStr s) = Inr (Text s)"
  by (simp add: later_rules_def)

lemma later_rules_claims:
  assumes "predToolType = Some Claim_Extractor \<or> predToolType = Some Contradiction_Checker"
    and "get_prop out ''claims'' = JArr (map JStr cs)"
  shows "later_rules rt predToolType out = Inr (Text (join (newline @ ''---'' @ newline) cs))"
proof -
  have "map_exn (claim_line rt) (map JStr cs) = Inr cs"
    by (induction cs) (simp_all add: claim_line_def)
  then show ?thesis using assms by (auto simp: later_rules_def)
qed

text \<open>
  C3, amended: for a consumer that is not the literature review, when the output of the
  resolved predecessor holds a list of papers: if the predecessor is a Source Finder node
  (or a node without tool type), the adapted input is the newline-joined string with one
  line \<^verbatim>\<open>"<title>. <authors> (<year>)"\<close> per paper, the authors joined by a comma and a space
  and the year read from \<^verbatim>\<open>published\<close>; if the predecessor has any other tool type, the
  papers are not flattened and the adapted input is what the later rules (claims, review
  text, text, string, serialisation) give for that output.
\<close>

theorem papers_flattened_for_source_finder_only:
  assumes "find (\<lambda>e. target e = Node_id nodeId) es = Some e"
    and "find (\<lambda>n. Node_id (id_node n) = source e) ns = Some pn"
    and "ctx \<noteq> Some AI_Literature_Review"
    and "get_prop (output_data (data pn)) ''papers'' = JArr ps"
    and "list_all2 (\<lambda>p (t, as, y). get_prop p ''title'' = JStr t
              \<and> get_prop p ''authors'' = JArr (map JStr as)
              \<and> get_prop p ''published'' = JStr y) ps infos"
  shows "getInputFromPredecessorNode rt nodeId es ns ctx
         = (if toolType (data pn) = Some Source_Finder \<or> toolType (data pn) = None
            then Inr (Text (join newline
                   (map (\<lambda>(t, as, y). spec_paper_line t (join '', '' as) y) infos)))
            else later_rules rt (toolType (data pn)) (output_data (data pn)))"
proof -
  have t: "truthy (output_data (data pn))"
    using assms(4) by (cases "output_data (data pn)") simp_all
  show ?thesis
  proof (cases "toolType (data pn) = Some Source_Finder \<or> toolType (data pn) = None")
    case True
    then show ?thesis
      using t assms(1-4) map_exn_paper_line [OF assms(5), of rt]
      by (auto simp: getInputFromPredecessorNode_def Let_def)
  next
    case False
    then obtain tt where "toolType (data pn) = Some tt" and "tt \<noteq> Source_Finder"
      by (cases "toolType (data pn)") auto
    then show ?thesis
      using t assms(1-4) by (simp add: getInputFromPredecessorNode_def Let_def)
  qed
qed

theorem papers_flattened_for_source_finder_only_witness:
  "getInputFromPredecessorNode test_runtime ''b'' (edges search_to_extract)
     (nodes search_to_extract) None
   = Inr (Text (''Deep Learning. Y. LeCun, Y. Bengio (2015)'' @ newline
                @ ''Attention. A. Vaswani (2017)''))
   \<and> getInputFromPredecessorNode test_runtime ''b'' (edges review_to_export)
     (nodes review_to_export) None
   = Inr (Text ''A survey.'')"
proof -
  let ?a = "done_node ''a'' Source_Finder (JObj [(''papers'', JArr [paper1, paper2])])"
  let ?r = "done_node ''a'' AI_Literature_Review
              (JObj [(''review'', JStr ''A survey.''), (''papers'', JArr [paper1])])"
  let ?e = "preset_edge ''e1'' ''a'' ''b''"
  have 1: "find (\<lambda>e. target e = Node_id ''b'') (edges search_to_extract) = Some ?e"
    by (simp add: search_to_extract_def example_defs)
  have 2: "find (\<lambda>n. Node_id (id_node n) = source ?e) (nodes search_to_extract) = Some ?a"
    by (simp add: search_to_extract_def example_defs)
  have 3: "None \<noteq> Some AI_Literature_Review" by simp
  have 4: "get_prop (output_data (data ?a)) ''papers'' = JArr [paper1, paper2]"
    by (simp add: done_node_def)
  have 5: "list_all2 (\<lambda>p (t, as, y). get_prop p ''title'' = JStr t
              \<and> get_prop p ''authors'' = JArr (map JStr as)
              \<and> get_prop p ''published'' = JStr y) [paper1, paper2]
            [(''Deep Learning'', [''Y. LeCun'', ''Y. Bengio''], ''2015''),
             (''Attention'', [''A. Vaswani''], ''2017'')]"
    by (simp add: paper1_def paper2_def)
  have first: "getInputFromPredecessorNode test_runtime ''b'' (edges search_to_extract)
     (nodes search_to_extract) None
   = Inr (Text (''Deep Learning. Y. LeCun, Y. Bengio (2015)'' @ newline
                @ ''Attention. A. Vaswani (2017)''))"
    using papers_flattened_for_source_finder_only [OF 1 2 3 4 5, of test_runtime]
    by (simp add: spec_paper_line_def done_node_def)
  have x1: "find (\<lambda>e. target e = Node_id ''b'') (edges review_to_export) = Some ?e"
    by (simp add: review_to_export_def example_defs)
  have x2: "find (\<lambda>n. Node_id (id_node n) = source ?e) (nodes review_to_export) = Some ?r"
    by (simp add: review_to_export_def example_defs)
  have x4: "get_prop (output_data (data ?r)) ''papers'' = JArr [paper1]"
    by (simp add: done_node_def)
  have x5: "list_all2 (\<lambda>p (t, as, y). get_prop p ''title'' = JStr t
              \<and> get_prop p ''authors'' = JArr (map JStr as)
              \<and> get_prop p ''published'' = JStr y) [paper1]
            [(''Deep Learning'', [''Y. LeCun'', ''Y. Bengio''], ''2015'')]"
    by (simp add: paper1_def)
  have second: "getInputFromPredecessorNode test_runtime ''b'' (edges review_to_export)
     (nodes review_to_export) None = Inr (Text ''A survey.'')"
    using papers_flattened_for_source_finder_only [OF x1 x2 3 x4 x5, of test_runtime]
    by (simp add: done_node_def later_rules_def)
  from first second show ?thesis by simp
qed

text \<open>
  C3, as stated, promises the flattened string whatever the tool type of the predecessor.
  In \<open>review_to_export\<close> the predecessor is a literature review whose output holds a list
  of one paper; the consumer is an export node, and the adapted input is the review text,
  not the paper line.
\<close>

theorem papers_other_predecessor_counterexample:
  "get_prop (output_data (data (nodes review_to_export ! 0))) ''papers'' = JArr [paper1]
   \<and> toolType (data (nodes review_to_export ! 1)) = Some Export_TXT
   \<and> map_exn (paper_line test_runtime) [paper1]
     = Inr [''Deep Learning. Y. LeCun, Y. Bengio (2015)'']
   \<and> getInputFromPredecessorNode test_runtime ''b'' (edges review_to_export)
        (nodes review_to_export) None = Inr (Text ''A survey.'')"
  by (simp add: getInputFromPredecessorNode_def later_rules_def review_to_export_def
      example_defs paper1_def paper_line_def array_join_def)

section \<open>Properties of the tool invocation\<close>





text \<open>The literature review sends the papers of its predecessor beside its own config.\<close>

lemma literature_review_takes_papers:
  assumes "getInputFromPredecessorNode rt nodeId es ns (Some AI_Literature_Review)
           = Inr (Papers ps)"
  shows "build_call rt nodeId es ns (Some AI_Literature_Review) cfg
         = Inr ([], Api \<lparr>url = ''/api/literature-review/generate'',
                   body = [(''reviewTopicScope'', js_of (reviewTopicScope cfg)),
                           (''reviewType'', js_of (reviewType cfg)),
                           (''reviewDepthLength'', js_of (reviewDepthLength cfg)),
                           (''reviewTone'', js_of (reviewTone cfg)),
                           (''yearFrom'', js_of (yearFrom cfg)),
                           (''yearTo'', js_of (yearTo cfg)),
                           (''papers'', JArr ps),
                           (''model'', js_of (model cfg))]\<rparr>)"
  using assms by (simp add: build_call_def)

text \<open>Without a predecessor output the adapter answers \<^verbatim>\<open>null\<close>, whatever the consumer.\<close>

lemma no_predecessor_output_No_input:
  assumes "\<not> has_predecessor_output nodeId es ns"
  shows "getInputFromPredecessorNode rt nodeId es ns ctx = Inr No_input"
  using assms
  by (auto simp: has_predecessor_output_def getInputFromPredecessorNode_def Let_def
      split: option.splits)

lemma no_incoming_edge_no_output:
  assumes "\<not> list_ex (\<lambda>e. target e = Node_id nodeId) es"
  shows "\<not> has_predecessor_output nodeId es ns"
proof -
  have "find (\<lambda>e. target e = Node_id nodeId) es = None"
    using assms by (simp add: find_None_iff list_ex_iff)
  then show ?thesis by (simp add: has_predecessor_output_def)
qed

text \<open>
  C5, as stated, holds of every tool type. The export node of \<open>lone_export\<close> has no
  predecessor and no prompt; executing it sends the export request, with empty content.
\<close>

theorem missing_input_counterexample:
  "edges lone_export = []
   \<and> prompt (config (data (nodes lone_export ! 0))) = None
   \<and> requests (handleToolExecution test_runtime ''s'' ''x'' lone_export)
     = [\<lparr>url = ''/api/export-tools/txt'',
         body = [(''exportData'', JStr []), (''exportFileName'', JStr ''export.txt'')]\<rparr>]"
  by (simp add: handleToolExecution_def build_call_def getInputFromPredecessorNode_def
      lone_export_def example_defs or_else_def adapted_or_def perform_def test_runtime_def
      set_result_def Let_def)

text \<open>The two shapes an execution takes: it fails before any request, or it sends one
  request and ends according to the answer.\<close>

lemma handleToolExecution_throws:
  assumes "find (\<lambda>n. id_node n = nodeId) (nodes w) = Some n"
    and "build_call rt nodeId (edges w) (nodes w) (toolType (data n)) (config (data n))
         = Inl (Failure m)"
  shows "handleToolExecution rt fresh nodeId w
         = w\<lparr>console := console w
                 @ [''Error running node '' @ nodeId @ '' (''
                    @ toolType_name (toolType (data n)) @ '')''],
             nodes := map (set_result Error (JObj [(''error'', JStr m)])
                             (or_else (sessionId (data n)) fresh) nodeId) (nodes w)\<rparr>"
  using assms by (simp add: handleToolExecution_def Let_def fail_node_def message_def)

lemma handleToolExecution_sends:
  assumes "find (\<lambda>n. id_node n = nodeId) (nodes w) = Some n"
    and "build_call rt nodeId (edges w) (nodes w) (toolType (data n)) (config (data n))
         = Inr (warnings, c)"
  shows "\<exists>st out files msgs.
           handleToolExecution rt fresh nodeId w
           = w\<lparr>console := console w @ msgs,
               requests := requests w @ [request_of c],
               downloads := downloads w @ files,
               nodes := map (set_result st out (or_else (sessionId (data n)) fresh) nodeId)
                            (nodes w)\<rparr>"
proof (cases "perform rt c")
  case (Inl e)
  let ?w' = "w\<lparr>console := console w
                 @ (warnings @ [''Error running node '' @ nodeId @ '' (''
                    @ toolType_name (toolType (data n)) @ '')'']),
             requests := requests w @ [request_of c],
             downloads := downloads w @ [],
             nodes := map (set_result Error (JObj [(''error'', JStr (message rt e))])
                             (or_else (sessionId (data n)) fresh) nodeId) (nodes w)\<rparr>"
  have "handleToolExecution rt fresh nodeId w = ?w'"
    using assms Inl by (simp add: handleToolExecution_def Let_def fail_node_def)
  then show ?thesis by blast
next
  case (Inr res)
  obtain responseData files where res: "res = (responseData, files)" by (cases res)
  let ?w' = "w\<lparr>console := console w @ warnings,
             requests := requests w @ [request_of c],
             downloads := downloads w @ files,
             nodes := map (set_result Success responseData
                             (or_else (sessionId (data n)) fresh) nodeId) (nodes w)\<rparr>"
  have "handleToolExecution rt fresh nodeId w = ?w'"
    using assms Inr res by (simp add: handleToolExecution_def Let_def)
  then show ?thesis by blast
qed

lemma set_result_others:
  "list_all2 (\<lambda>m m'. id_node m = nodeId \<or> m' = m) ns (map (set_result st out sid nodeId) ns)"
  by (simp add: list_all2_map2 set_result_def list.rel_refl)

lemma set_result_executed:
  "list_all2 (\<lambda>m m'. id_node m \<noteq> nodeId
                \<or> status (data m') = st \<and> output_data (data m') = out)
     ns (map (set_result st out sid nodeId) ns)"
  by (simp add: list_all2_map2 set_result_def list.rel_refl)

text \<open>What the switch makes of a node without input, tool type by tool type.\<close>

lemma build_call_without_input:
  assumes "\<not> has_predecessor_output nodeId es ns"
    and "or_else (prompt cfg) [] = []" and "or_else (referencesInput cfg) [] = []"
  shows "build_call rt nodeId es ns (Some Claim_Extractor) cfg
         = Inl (Failure
             ''Claim Extractor requires an input prompt or a connection providing text output.'')"
    and "build_call rt nodeId es ns (Some Contradiction_Checker) cfg
         = Inl (Failure
             ''Contradiction Checker requires an input prompt or connection with text/claims output.'')"
    and "build_call rt nodeId es ns (Some Data_Analysis) cfg
         = Inl (Failure ''Unknown or unhandled tool type: Data Analysis'')"
    and "build_call rt nodeId es ns None cfg
         = Inl (Failure ''Unknown or unhandled tool type: undefined'')"
    and "\<exists>ws c. build_call rt nodeId es ns (Some Source_Finder) cfg = Inr (ws, c)
           \<and> url (request_of c) = ''/api/source-finder/search''"
    and "\<exists>ws c. build_call rt nodeId es ns (Some AI_Literature_Review) cfg = Inr (ws, c)
           \<and> url (request_of c) = ''/api/literature-review/generate''"
    and "\<exists>ws c. build_call rt nodeId es ns (Some Reference_Citation_Management) cfg = Inr (ws, c)
           \<and> url (request_of c) = ''/api/reference-management/format''"
    and "\<exists>ws c. build_call rt nodeId es ns (Some Export_TXT) cfg = Inr (ws, c)
           \<and> url (request_of c) = ''/api/export-tools/txt''"
    and "\<exists>ws c. build_call rt nodeId es ns (Some Export_DOC) cfg = Inr (ws, c)
           \<and> url (request_of c) = ''/api/export-tools/doc''"
  using assms(2,3) no_predecessor_output_No_input [OF assms(1), of rt]
  by (simp_all add: build_call_def Let_def string_or_empty_def)

text \<open>
  C5, amended: executing a node that has no predecessor output and whose own prompt and
  references input are empty or absent changes no other node, no edge, no timer and not
  the run flag. A Claim Extractor or Contradiction Checker node ends in status \<^verbatim>\<open>error\<close>
  with the tool's message as its output, and no request is sent and no download offered;
  so does a Data Analysis node and a node without tool type, which the switch rejects as
  an unknown tool type. A Source Finder, AI Literature Review, Reference and Citation
  Management, Export TXT or Export DOC node sends its one request to its endpoint all the
  same.
\<close>

theorem missing_input_by_tool_type:
  assumes "find (\<lambda>n. id_node n = nodeId) (nodes w) = Some n"
    and "\<not> has_predecessor_output nodeId (edges w) (nodes w)"
    and "or_else (prompt (config (data n))) [] = []"
    and "or_else (referencesInput (config (data n))) [] = []"
  shows "(let w' = handleToolExecution rt fresh nodeId w; tt = toolType (data n)
          in timers w' = timers w \<and> runningWorkflow w' = runningWorkflow w
             \<and> edges w' = edges w
             \<and> list_all2 (\<lambda>m m'. id_node m = nodeId \<or> m' = m) (nodes w) (nodes w')
             \<and> (if tt = Some Claim_Extractor \<or> tt = Some Contradiction_Checker
                    \<or> tt = Some Data_Analysis \<or> tt = None
                 then requests w' = requests w \<and> downloads w' = downloads w
                      \<and> list_all2
                          (\<lambda>m m'. id_node m \<noteq> nodeId
                             \<or> status (data m') = Error
                               \<and> output_data (data m')
                                 = JObj [(''error'', JStr
                                     (case tt of
                                        Some Claim_Extractor \<Rightarrow>
                                          ''Claim Extractor requires an input prompt or a connection providing text output.''
                                      | Some Contradiction_Checker \<Rightarrow>
                                          ''Contradiction Checker requires an input prompt or connection with text/claims output.''
                                      | _ \<Rightarrow> ''Unknown or unhandled tool type: ''
                                             @ toolType_name tt))])
                          (nodes w) (nodes w')
                 else (\<exists>r. requests w' = requests w @ [r]
                         \<and> url r = (case tt of
                                      Some Source_Finder \<Rightarrow> ''/api/source-finder/search''
                                    | Some AI_Literature_Review \<Rightarrow>
                                        ''/api/literature-review/generate''
                                    | Some Reference_Citation_Management \<Rightarrow>
                                        ''/api/reference-management/format''
                                    | Some Export_TXT \<Rightarrow> ''/api/export-tools/txt''
                                    | _ \<Rightarrow> ''/api/export-tools/doc''))))"
proof -
  note b = build_call_without_input [OF assms(2) assms(3) assms(4), of rt]
  let ?tt = "toolType (data n)"
  let ?m = "case ?tt of
              Some Claim_Extractor \<Rightarrow>
                ''Claim Extractor requires an input prompt or a connection providing text output.''
            | Some Contradiction_Checker \<Rightarrow>
                ''Contradiction Checker requires an input prompt or connection with text/claims output.''
            | _ \<Rightarrow> ''Unknown or unhandled tool type: '' @ toolType_name ?tt"
  let ?u = "case ?tt of
              Some Source_Finder \<Rightarrow> ''/api/source-finder/search''
            | Some AI_Literature_Review \<Rightarrow> ''/api/literature-review/generate''
            | Some Reference_Citation_Management \<Rightarrow> ''/api/reference-management/format''
            | Some Export_TXT \<Rightarrow> ''/api/export-tools/txt''
            | _ \<Rightarrow> ''/api/export-tools/doc''"
  have throws: ?thesis
    if m: "build_call rt nodeId (edges w) (nodes w) ?tt (config (data n)) = Inl (Failure ?m)"
      and bad: "?tt = Some Claim_Extractor \<or> ?tt = Some Contradiction_Checker
                \<or> ?tt = Some Data_Analysis \<or> ?tt = None"
  proof -
    have h: "handleToolExecution rt fresh nodeId w
         = w\<lparr>console := console w
                 @ [''Error running node '' @ nodeId @ '' ('' @ toolType_name ?tt @ '')''],
             nodes := map (set_result Error (JObj [(''error'', JStr ?m)])
                             (or_else (sessionId (data n)) fresh) nodeId) (nodes w)\<rparr>"
      using handleToolExecution_throws [OF assms(1) m] .
    have others: "list_all2 (\<lambda>m m'. id_node m = nodeId \<or> m' = m) (nodes w)
                    (nodes (handleToolExecution rt fresh nodeId w))"
      unfolding h using set_result_others by simp
    have executed: "list_all2 (\<lambda>m m'. id_node m \<noteq> nodeId
                \<or> status (data m') = Error \<and> output_data (data m') = JObj [(''error'', JStr ?m)])
              (nodes w) (nodes (handleToolExecution rt fresh nodeId w))"
      unfolding h using set_result_executed by simp
    have frame: "timers (handleToolExecution rt fresh nodeId w) = timers w"
      "runningWorkflow (handleToolExecution rt fresh nodeId w) = runningWorkflow w"
      "edges (handleToolExecution rt fresh nodeId w) = edges w"
      "requests (handleToolExecution rt fresh nodeId w) = requests w"
      "downloads (handleToolExecution rt fresh nodeId w) = downloads w"
      unfolding h by simp_all
    show ?thesis
      unfolding Let_def using bad others executed frame by simp
  qed
  have sends: ?thesis
    if c: "\<exists>ws c. build_call rt nodeId (edges w) (nodes w) ?tt (config (data n)) = Inr (ws, c)
                \<and> url (request_of c) = ?u"
      and good: "\<not> (?tt = Some Claim_Extractor \<or> ?tt = Some Contradiction_Checker
                \<or> ?tt = Some Data_Analysis \<or> ?tt = None)"
  proof -
    from c obtain ws c' where c': "build_call rt nodeId (edges w) (nodes w) ?tt (config (data n))
        = Inr (ws, c')" and url: "url (request_of c') = ?u"
      by blast
    from handleToolExecution_sends [OF assms(1) c', of fresh]
    obtain st out files msgs where h: "handleToolExecution rt fresh nodeId w
           = w\<lparr>console := console w @ msgs,
               requests := requests w @ [request_of c'],
               downloads := downloads w @ files,
               nodes := map (set_result st out (or_else (sessionId (data n)) fresh) nodeId)
                            (nodes w)\<rparr>"
      by blast
    have others: "list_all2 (\<lambda>m m'. id_node m = nodeId \<or> m' = m) (nodes w)
                    (nodes (handleToolExecution rt fresh nodeId w))"
      unfolding h using set_result_others by simp
    have frame: "timers (handleToolExecution rt fresh nodeId w) = timers w"
      "runningWorkflow (handleToolExecution rt fresh nodeId w) = runningWorkflow w"
      "edges (handleToolExecution rt fresh nodeId w) = edges w"
      "requests (handleToolExecution rt fresh nodeId w) = requests w @ [request_of c']"
      unfolding h by simp_all
    have sent: "\<exists>r. requests (handleToolExecution rt fresh nodeId w) = requests w @ [r]
                  \<and> url r = ?u"
      using frame(4) url by blast
    show ?thesis
      unfolding Let_def if_not_P [OF good] using others frame(1-3) sent by blast
  qed
  show ?thesis
  proof (cases "toolType (data n)")
    case None
    then show ?thesis using throws b(4) by simp
  next
    case (Some t)
    then show ?thesis
    proof (cases t)
      case Source_Finder
      with Some show ?thesis using sends b(5) by simp
    next
      case Contradiction_Checker
      with Some show ?thesis using throws b(2) by simp
    next
      case Data_Analysis
      with Some show ?thesis using throws b(3) by simp
    next
      case Claim_Extractor
      with Some show ?thesis using throws b(1) by simp
    next
      case AI_Literature_Review
      with Some show ?thesis using sends b(6) by simp
    next
      case Reference_Citation_Management
      with Some show ?thesis using sends b(7) by simp
    next
      case Export_TXT
      with Some show ?thesis using sends b(8) by simp
    next
      case Export_DOC
      with Some show ?thesis using sends b(9) by simp
    qed
  qed
qed

theorem missing_input_by_tool_type_witness:
  "requests (handleToolExecution test_runtime ''s'' ''b'' pending_to_extract) = []
   \<and> map (\<lambda>n. status (data n))
       (nodes (handleToolExecution test_runtime ''s'' ''b'' pending_to_extract))
     = [Pending, Error, Success]
   \<and> output_data (data (nodes (handleToolExecution test_runtime ''s'' ''b'' pending_to_extract) ! 1))
     = JObj [(''error'',
        JStr ''Claim Extractor requires an input prompt or a connection providing text output.'')]
   \<and> map url (requests (handleToolExecution test_runtime ''s'' ''x'' lone_export))
     = [''/api/export-tools/txt'']"
proof -
  let ?b = "createToolNode ''b'' ''Claim Extractor'' Claim_Extractor 400 0"
  let ?x = "createToolNode ''x'' ''Export TXT'' Export_TXT 0 0"
  have 1: "find (\<lambda>n. id_node n = ''b'') (nodes pending_to_extract) = Some ?b"
    by (simp add: pending_to_extract_def example_defs)
  have 2: "\<not> has_predecessor_output ''b'' (edges pending_to_extract) (nodes pending_to_extract)"
    by (simp add: has_predecessor_output_def pending_to_extract_def example_defs)
  have 3: "or_else (prompt (config (data ?b))) [] = []"
    by (simp add: or_else_def example_defs)
  have 4: "or_else (referencesInput (config (data ?b))) [] = []"
    by (simp add: or_else_def example_defs)
  have n: "nodes pending_to_extract
           = [createToolNode ''a'' ''Source Finder'' Source_Finder 0 0, ?b,
              done_node ''c'' Source_Finder (JObj [(''papers'', JArr [paper1])])]"
    by (simp add: pending_to_extract_def initial_world_def)
  have r: "requests pending_to_extract = []"
    by (simp add: pending_to_extract_def initial_world_def)
  have first: "requests (handleToolExecution test_runtime ''s'' ''b'' pending_to_extract) = []
   \<and> map (\<lambda>n. status (data n))
       (nodes (handleToolExecution test_runtime ''s'' ''b'' pending_to_extract))
     = [Pending, Error, Success]
   \<and> output_data (data (nodes (handleToolExecution test_runtime ''s'' ''b'' pending_to_extract) ! 1))
     = JObj [(''error'',
        JStr ''Claim Extractor requires an input prompt or a connection providing text output.'')]"
    using missing_input_by_tool_type [OF 1 2 3 4, of test_runtime "''s''"]
    by (auto simp: Let_def n r list_all2_Cons1 createToolNode_def done_node_def)
  have x1: "find (\<lambda>n. id_node n = ''x'') (nodes lone_export) = Some ?x"
    by (simp add: lone_export_def example_defs)
  have x2: "\<not> has_predecessor_output ''x'' (edges lone_export) (nodes lone_export)"
    by (simp add: has_predecessor_output_def lone_export_def example_defs)
  have x3: "or_else (prompt (config (data ?x))) [] = []"
    by (simp add: or_else_def example_defs)
  have x4: "or_else (referencesInput (config (data ?x))) [] = []"
    by (simp add: or_else_def example_defs)
  have xr: "requests lone_export = []"
    by (simp add: lone_export_def initial_world_def)
  have second: "map url (requests (handleToolExecution test_runtime ''s'' ''x'' lone_export))
     = [''/api/export-tools/txt'']"
    using missing_input_by_tool_type [OF x1 x2 x3 x4, of test_runtime "''s''"]
    by (auto simp: Let_def xr createToolNode_def)
  from first second show ?thesis by simp
qed

section \<open>Properties of the editing commands\<close>

lemma digit_inj: "a < 10 \<Longrightarrow> b < 10 \<Longrightarrow> digit a = digit b \<Longrightarrow> a = b"
proof -
  assume a: "a < 10" and b: "b < 10" and e: "digit a = digit b"
  have d: "distinct ''0123456789''" by simp
  have "length ''0123456789'' = 10" by simp
  with a b e d show "a = b"
    unfolding digit_def by (metis nth_eq_iff_index_eq)
qed

lemma digit_not_underscore: "d < 10 \<Longrightarrow> digit d \<noteq> CHR ''_''"
proof -
  assume "d < 10"
  then have "digit d \<in> set ''0123456789''"
    unfolding digit_def by (intro nth_mem) simp
  then show ?thesis by auto
qed

lemma show_nat_not_Nil: "show_nat n \<noteq> []"
  by (subst show_nat.simps) simp

lemma underscore_notin_show_nat: "CHR ''_'' \<notin> set (show_nat n)"
proof (induction n rule: show_nat.induct)
  case (1 n)
  show ?case
  proof (cases "n < 10")
    case True
    then show ?thesis
      using digit_not_underscore [of n] by (subst show_nat.simps) auto
  next
    case False
    then have "n mod 10 < 10" by simp
    with False 1 show ?thesis
      using digit_not_underscore [of "n mod 10"] by (subst show_nat.simps) auto
  qed
qed

lemma show_nat_inj: "show_nat n = show_nat m \<Longrightarrow> n = m"
proof (induction n arbitrary: m rule: show_nat.induct)
  case (1 n)
  show ?case
  proof (cases "n < 10")
    case n: True
    show ?thesis
    proof (cases "m < 10")
      case True
      with n 1(2) show ?thesis
        by (simp add: show_nat.simps [of n] show_nat.simps [of m] digit_inj)
    next
      case False
      with n 1(2) show_nat_not_Nil [of "m div 10"] show ?thesis
        by (simp add: show_nat.simps [of n] show_nat.simps [of m] Cons_eq_append_conv)
    qed
  next
    case n: False
    show ?thesis
    proof (cases "m < 10")
      case True
      with n 1(2) show_nat_not_Nil [of "n div 10"] show ?thesis
        by (simp add: show_nat.simps [of n] show_nat.simps [of m] append_eq_Cons_conv)
    next
      case False
      with n 1(2) have e: "show_nat (n div 10) = show_nat (m div 10)"
        and d: "digit (n mod 10) = digit (m mod 10)"
        by (simp_all add: show_nat.simps [of n] show_nat.simps [of m])
      from 1(1) [OF n e] have "n div 10 = m div 10" .
      moreover from d have "n mod 10 = m mod 10"
        by (intro digit_inj) simp_all
      ultimately show ?thesis
        by (metis div_mult_mod_eq)
    qed
  qed
qed

lemma tail_after_separator:
  assumes "xs @ c # ys = xs' @ c # ys'" and "c \<notin> set ys" and "c \<notin> set ys'"
  shows "ys = ys'"
proof -
  have "takeWhile (\<lambda>x. x \<noteq> c) (rev (xs @ c # ys)) = rev ys"
    using assms(2) by (auto simp: takeWhile_tail)
  moreover have "takeWhile (\<lambda>x. x \<noteq> c) (rev (xs' @ c # ys')) = rev ys'"
    using assms(3) by (auto simp: takeWhile_tail)
  ultimately show ?thesis using assms(1) by simp
qed

lemma minted_unique: "minted k s \<Longrightarrow> minted j s \<Longrightarrow> k = j"
proof -
  assume k: "minted k s" and j: "minted j s"
  from k obtain b where b: "s = b @ CHR ''_'' # show_nat k"
    unfolding minted_def by auto
  from j obtain b' where b': "s = b' @ CHR ''_'' # show_nat j"
    unfolding minted_def by auto
  from b b' have "b @ CHR ''_'' # show_nat k = b' @ CHR ''_'' # show_nat j"
    by simp
  then have "show_nat k = show_nat j"
    by (rule tail_after_separator) (rule underscore_notin_show_nat)+
  then show ?thesis by (rule show_nat_inj)
qed

lemma minted_intro: "minted k (b @ CHR ''_'' # show_nat k)"
  by (auto simp: minted_def)

lemma ids_below_mono: "ids_below c S \<Longrightarrow> c \<le> c' \<Longrightarrow> T \<subseteq> S \<Longrightarrow> ids_below c' T"
  by (auto simp: ids_below_def)

lemma ids_below_fresh: "ids_below c S \<Longrightarrow> minted k s \<Longrightarrow> c \<le> k \<Longrightarrow> s \<notin> S"
  by (auto simp: ids_below_def)

lemma ids_below_minted:
  assumes "\<forall>s\<in>S. \<exists>k<c. minted k s"
  shows "ids_below c S"
  unfolding ids_below_def
proof (intro ballI allI impI notI)
  fix s k
  assume "s \<in> S" and "c \<le> k" and "minted k s"
  from assms \<open>s \<in> S\<close> obtain j where "j < c" and "minted j s" by blast
  with \<open>minted k s\<close> have "k = j" by (simp add: minted_unique)
  with \<open>j < c\<close> \<open>c \<le> k\<close> show False by simp
qed

lemma ids_below_Un: "ids_below c S \<Longrightarrow> ids_below c T \<Longrightarrow> ids_below c (S \<union> T)"
  by (auto simp: ids_below_def)

lemma id_node_pasted_node: "id_node (pasted_node k n) = id_node n @ ''_'' @ show_nat k"
  by (simp add: pasted_node_def Let_def)

lemma pasted_nodes_Cons: "pasted_nodes c (n # ns) = pasted_node c n # pasted_nodes (Suc c) ns"
  by (simp add: pasted_nodes_def)

lemma pasted_nodes_Nil: "pasted_nodes c [] = []"
  by (simp add: pasted_nodes_def)

lemma pasted_minted:
  "s \<in> id_node ` set (pasted_nodes c ns) \<Longrightarrow> \<exists>k. c \<le> k \<and> k < c + length ns \<and> minted k s"
proof (induction ns arbitrary: c)
  case Nil
  then show ?case by (simp add: pasted_nodes_Nil)
next
  case (Cons n ns)
  from Cons.prems consider "s = id_node (pasted_node c n)"
    | "s \<in> id_node ` set (pasted_nodes (Suc c) ns)"
    by (auto simp: pasted_nodes_Cons)
  then show ?case
  proof cases
    case 1
    then have "minted c s" by (simp add: id_node_pasted_node minted_intro)
    then show ?thesis by auto
  next
    case 2
    from Cons.IH [OF 2] obtain k where "Suc c \<le> k" "k < Suc c + length ns" "minted k s"
      by auto
    then show ?thesis by (intro exI [of _ k]) simp
  qed
qed

lemma pasted_distinct: "distinct (map id_node (pasted_nodes c ns))"
proof (induction ns arbitrary: c)
  case Nil
  then show ?case by (simp add: pasted_nodes_Nil)
next
  case (Cons n ns)
  have "id_node (pasted_node c n) \<notin> id_node ` set (pasted_nodes (Suc c) ns)"
  proof
    assume "id_node (pasted_node c n) \<in> id_node ` set (pasted_nodes (Suc c) ns)"
    from pasted_minted [OF this] obtain k where "Suc c \<le> k" "minted k (id_node (pasted_node c n))"
      by auto
    moreover have "minted c (id_node (pasted_node c n))"
      by (simp add: id_node_pasted_node minted_intro)
    ultimately show False using minted_unique [of k _ c] by simp
  qed
  with Cons.IH [of "Suc c"] show ?case by (simp add: pasted_nodes_Cons)
qed

lemma distinct_map_filter_ids: "distinct (map id_node ns) \<Longrightarrow> distinct (map id_node (filter P ns))"
  by (rule distinct_map_filter)

lemma clipboard_invI:
  assumes "distinct (map id_node (nodes w))"
    and "ids_below (idCounter w) (known_ids w)"
    and "distinct (map id_node (action_nodes (lastAction w)))"
    and "distinct (map id_node (action_nodes (redoAction w)))"
    and "\<And>a. lastAction w = Some a \<Longrightarrow> type_action a = cut \<Longrightarrow>
            id_node ` set (nodes_action a) \<inter> id_node ` set (nodes w) = {}"
    and "\<And>a. redoAction w = Some a \<Longrightarrow> type_action a = paste \<Longrightarrow>
            id_node ` set (nodes_action a) \<inter> id_node ` set (nodes w) = {}"
  shows "clipboard_inv w"
  using assms unfolding clipboard_inv_def by blast

lemma clipboard_inv_distinct: "clipboard_inv w \<Longrightarrow> distinct (map id_node (nodes w))"
  by (simp add: clipboard_inv_def)

lemma clipboard_inv_below: "clipboard_inv w \<Longrightarrow> ids_below (idCounter w) (known_ids w)"
  by (simp add: clipboard_inv_def)

lemma clipboard_inv_last_distinct:
  "clipboard_inv w \<Longrightarrow> distinct (map id_node (action_nodes (lastAction w)))"
  by (simp add: clipboard_inv_def)

lemma clipboard_inv_redo_distinct:
  "clipboard_inv w \<Longrightarrow> distinct (map id_node (action_nodes (redoAction w)))"
  by (simp add: clipboard_inv_def)

lemma clipboard_inv_cut_disjoint:
  "clipboard_inv w \<Longrightarrow> lastAction w = Some a \<Longrightarrow> type_action a = cut \<Longrightarrow>
     id_node ` set (nodes_action a) \<inter> id_node ` set (nodes w) = {}"
  unfolding clipboard_inv_def by blast

lemma clipboard_inv_paste_disjoint:
  "clipboard_inv w \<Longrightarrow> redoAction w = Some a \<Longrightarrow> type_action a = paste \<Longrightarrow>
     id_node ` set (nodes_action a) \<inter> id_node ` set (nodes w) = {}"
  unfolding clipboard_inv_def by blast

lemma known_ids_parts:
  "known_ids w = id_node ` set (nodes w) \<union> id_node ` set (buffer_nodes w)
                 \<union> id_node ` set (action_nodes (lastAction w))
                 \<union> id_node ` set (action_nodes (redoAction w))"
  by (simp add: known_ids_def image_Un)

lemma nodes_known: "id_node ` set (nodes w) \<subseteq> known_ids w"
  by (auto simp: known_ids_def)

lemma buffer_known: "copyBuffer w = Some (ns, es) \<Longrightarrow> id_node ` set ns \<subseteq> known_ids w"
  by (auto simp: known_ids_def buffer_nodes_def)

lemma last_known: "lastAction w = Some a \<Longrightarrow> id_node ` set (nodes_action a) \<subseteq> known_ids w"
  by (auto simp: known_ids_def action_nodes_def)

lemma redo_known: "redoAction w = Some a \<Longrightarrow> id_node ` set (nodes_action a) \<subseteq> known_ids w"
  by (auto simp: known_ids_def action_nodes_def)

lemma known_ids_cong:
  "nodes w' = nodes w \<Longrightarrow> copyBuffer w' = copyBuffer w \<Longrightarrow> lastAction w' = lastAction w
     \<Longrightarrow> redoAction w' = redoAction w \<Longrightarrow> known_ids w' = known_ids w"
  by (simp add: known_ids_def buffer_nodes_def)

lemma clipboard_inv_cong:
  assumes "clipboard_inv w" and "nodes w' = nodes w" and "copyBuffer w' = copyBuffer w"
    and "lastAction w' = lastAction w" and "redoAction w' = redoAction w"
    and "idCounter w' = idCounter w"
  shows "clipboard_inv w'"
  using assms known_ids_cong [OF assms(2-5)] by (simp add: clipboard_inv_def)

lemma clipboard_inv_initial: "clipboard_inv initial_world"
  by (simp add: clipboard_inv_def initial_world_def known_ids_def ids_below_def buffer_nodes_def
      action_nodes_def)

lemma clipboard_inv_select: "clipboard_inv w \<Longrightarrow> clipboard_inv (onSelectionChangeHandler ns es w)"
  by (erule clipboard_inv_cong) (simp_all add: onSelectionChangeHandler_def)

lemma clipboard_inv_select_all: "clipboard_inv w \<Longrightarrow> clipboard_inv (select_all w)"
  by (erule clipboard_inv_cong) (simp_all add: select_all_def)

text \<open>Removing nodes from the graph, or replacing the buffer by nodes of the graph, keeps
  the invariant.\<close>

lemma clipboard_inv_shrink:
  assumes inv: "clipboard_inv w"
    and n: "nodes w' = filter P (nodes w)"
    and b: "set (buffer_nodes w') \<subseteq> set (buffer_nodes w) \<union> set (nodes w)"
    and l: "lastAction w' = lastAction w" and r: "redoAction w' = redoAction w"
    and c: "idCounter w' = idCounter w"
  shows "clipboard_inv w'"
proof (rule clipboard_invI)
  show "distinct (map id_node (nodes w'))"
    using clipboard_inv_distinct [OF inv] by (simp add: n distinct_map_filter)
  have "known_ids w' \<subseteq> known_ids w"
    using b by (auto simp: known_ids_def n l r)
  then show "ids_below (idCounter w') (known_ids w')"
    using clipboard_inv_below [OF inv] ids_below_mono unfolding c by blast
  show "distinct (map id_node (action_nodes (lastAction w')))"
    using clipboard_inv_last_distinct [OF inv] by (simp add: l)
  show "distinct (map id_node (action_nodes (redoAction w')))"
    using clipboard_inv_redo_distinct [OF inv] by (simp add: r)
  show "id_node ` set (nodes_action a) \<inter> id_node ` set (nodes w') = {}"
    if "lastAction w' = Some a" "type_action a = cut" for a
    using clipboard_inv_cut_disjoint [OF inv, of a] that by (auto simp: n l)
  show "id_node ` set (nodes_action a) \<inter> id_node ` set (nodes w') = {}"
    if "redoAction w' = Some a" "type_action a = paste" for a
    using clipboard_inv_paste_disjoint [OF inv, of a] that by (auto simp: n r)
qed

lemma clipboard_inv_copy: "clipboard_inv w \<Longrightarrow> clipboard_inv (copy_selection w)"
proof (erule clipboard_inv_shrink [where P = "\<lambda>n. True"])
  show "nodes (copy_selection w) = filter (\<lambda>n. True) (nodes w)"
    by (simp add: copy_selection_def Let_def)
  show "set (buffer_nodes (copy_selection w)) \<subseteq> set (buffer_nodes w) \<union> set (nodes w)"
    by (auto simp: copy_selection_def Let_def buffer_nodes_def)
qed (simp_all add: copy_selection_def Let_def)

lemma clipboard_inv_delete: "clipboard_inv w \<Longrightarrow> clipboard_inv (handleDelete w)"
proof (erule clipboard_inv_shrink
    [where P = "\<lambda>n. fst (selection w) = [] \<or> id_node n \<notin> set (selected_ids w)"])
  show "nodes (handleDelete w)
        = filter (\<lambda>n. fst (selection w) = [] \<or> id_node n \<notin> set (selected_ids w)) (nodes w)"
    by (simp add: handleDelete_def Let_def)
  show "set (buffer_nodes (handleDelete w)) \<subseteq> set (buffer_nodes w) \<union> set (nodes w)"
    by (auto simp: handleDelete_def Let_def buffer_nodes_def)
qed (simp_all add: handleDelete_def Let_def)

lemma clipboard_inv_drop: "clipboard_inv w \<Longrightarrow> clipboard_inv (onDrop tool pos w)"
proof -
  assume inv: "clipboard_inv w"
  define c where "c = idCounter w"
  define new where "new = remove_whitespace (toolType_name (Some tool)) @ CHR ''_'' # show_nat c"
  define w' where "w' = onDrop tool pos w"
  have m: "minted c new" unfolding new_def by (rule minted_intro)
  have below: "ids_below c (known_ids w)"
    using clipboard_inv_below [OF inv] by (simp add: c_def)
  have fresh: "new \<notin> known_ids w"
    using ids_below_fresh [OF below m] by simp
  have same: "idCounter w' = Suc c" "copyBuffer w' = copyBuffer w"
    "lastAction w' = lastAction w" "redoAction w' = redoAction w"
    by (simp_all add: w'_def onDrop_def Let_def c_def)
  have ids: "map id_node (nodes w') = map id_node (nodes w) @ [new]"
    by (simp add: w'_def onDrop_def Let_def c_def new_def)
  then have ids': "id_node ` set (nodes w') = insert new (id_node ` set (nodes w))"
    by (metis Un_insert_right list.set(2) list.set_map set_append sup_bot.right_neutral list.set(1))
  have known': "known_ids w' = insert new (known_ids w)"
    unfolding known_ids_def image_Un ids' same buffer_nodes_def by blast
  have "clipboard_inv w'"
  proof (rule clipboard_invI)
    show "distinct (map id_node (nodes w'))"
      using clipboard_inv_distinct [OF inv] fresh nodes_known [of w] unfolding ids by auto
    have "ids_below (Suc c) {new}"
      by (rule ids_below_minted) (use m in blast)
    moreover have "ids_below (Suc c) (known_ids w)"
      using below by (rule ids_below_mono) simp_all
    ultimately show "ids_below (idCounter w') (known_ids w')"
      using ids_below_Un [of "Suc c" "{new}" "known_ids w"] by (simp add: same known')
    show "distinct (map id_node (action_nodes (lastAction w')))"
      using clipboard_inv_last_distinct [OF inv] by (simp add: same)
    show "distinct (map id_node (action_nodes (redoAction w')))"
      using clipboard_inv_redo_distinct [OF inv] by (simp add: same)
    show "id_node ` set (nodes_action a) \<inter> id_node ` set (nodes w') = {}"
      if "lastAction w' = Some a" "type_action a = cut" for a
      using clipboard_inv_cut_disjoint [OF inv, of a] last_known [of w a] fresh that
      unfolding ids' same by blast
    show "id_node ` set (nodes_action a) \<inter> id_node ` set (nodes w') = {}"
      if "redoAction w' = Some a" "type_action a = paste" for a
      using clipboard_inv_paste_disjoint [OF inv, of a] redo_known [of w a] fresh that
      unfolding ids' same by blast
  qed
  then show ?thesis by (simp add: w'_def)
qed

lemma filter_ids_disjoint:
  "id_node ` set (filter (\<lambda>n. id_node n \<in> S) ns) \<inter> id_node ` set (filter (\<lambda>n. id_node n \<notin> S) ns) = {}"
  by auto

lemma clipboard_inv_cut: "clipboard_inv w \<Longrightarrow> clipboard_inv (cut_selection w)"
proof (cases "fst (selection w) = []")
  case True
  then have "cut_selection w = w" by (simp add: cut_selection_def)
  then show "clipboard_inv w \<Longrightarrow> clipboard_inv (cut_selection w)" by simp
next
  case False
  assume inv: "clipboard_inv w"
  define S where "S = set (selected_ids w)"
  define X where "X = filter (\<lambda>n. id_node n \<in> S) (nodes w)"
  define w' where "w' = cut_selection w"
  have n': "nodes w' = filter (\<lambda>n. id_node n \<notin> S) (nodes w)"
    using False by (simp add: w'_def cut_selection_def Let_def S_def)
  have b': "buffer_nodes w' = X"
    using False by (simp add: w'_def cut_selection_def Let_def S_def X_def buffer_nodes_def)
  have l': "action_nodes (lastAction w') = X"
    using False by (simp add: w'_def cut_selection_def Let_def S_def X_def action_nodes_def)
  have la: "nodes_action a = X" if "lastAction w' = Some a" for a
    using l' that by (simp add: action_nodes_def)
  have r': "redoAction w' = redoAction w" and c': "idCounter w' = idCounter w"
    using False by (simp_all add: w'_def cut_selection_def Let_def)
  have "clipboard_inv w'"
  proof (rule clipboard_invI)
    show "distinct (map id_node (nodes w'))"
      using clipboard_inv_distinct [OF inv] by (simp add: n' distinct_map_filter)
    have "known_ids w' \<subseteq> known_ids w"
      unfolding known_ids_def n' b' l' r' X_def by auto
    then show "ids_below (idCounter w') (known_ids w')"
      using clipboard_inv_below [OF inv] ids_below_mono unfolding c' by blast
    show "distinct (map id_node (action_nodes (lastAction w')))"
      using clipboard_inv_distinct [OF inv] by (simp add: l' X_def distinct_map_filter)
    show "distinct (map id_node (action_nodes (redoAction w')))"
      using clipboard_inv_redo_distinct [OF inv] by (simp add: r')
    show "id_node ` set (nodes_action a) \<inter> id_node ` set (nodes w') = {}"
      if "lastAction w' = Some a" "type_action a = cut" for a
      unfolding la [OF that(1)] n' X_def by (rule filter_ids_disjoint)
    show "id_node ` set (nodes_action a) \<inter> id_node ` set (nodes w') = {}"
      if "redoAction w' = Some a" "type_action a = paste" for a
      using clipboard_inv_paste_disjoint [OF inv, of a] that unfolding n' r' by auto
  qed
  then show "clipboard_inv (cut_selection w)" by (simp add: w'_def)
qed

lemma clipboard_inv_paste: "clipboard_inv w \<Longrightarrow> clipboard_inv (paste_buffer w)"
proof (cases "copyBuffer w")
  case None
  then have "paste_buffer w = w" by (simp add: paste_buffer_def)
  then show "clipboard_inv w \<Longrightarrow> clipboard_inv (paste_buffer w)" by simp
next
  case (Some buf)
  assume inv: "clipboard_inv w"
  obtain bn be where buf: "buf = (bn, be)" by (cases buf)
  define c where "c = idCounter w"
  define P where "P = pasted_nodes c bn"
  define w' where "w' = paste_buffer w"
  have n': "nodes w' = nodes w @ P"
    using Some buf by (simp add: w'_def paste_buffer_def Let_def P_def c_def)
  have l': "action_nodes (lastAction w') = P"
    using Some buf by (simp add: w'_def paste_buffer_def Let_def P_def c_def action_nodes_def)
  have lt: "type_action a = paste" if "lastAction w' = Some a" for a
    using Some buf that by (auto simp: w'_def paste_buffer_def Let_def)
  have r': "redoAction w' = redoAction w" and b': "copyBuffer w' = copyBuffer w"
    and c': "idCounter w' = c + length bn + length be"
    using Some buf by (simp_all add: w'_def paste_buffer_def Let_def c_def)
  have below: "ids_below c (known_ids w)"
    using clipboard_inv_below [OF inv] by (simp add: c_def)
  have P_minted: "\<exists>k. c \<le> k \<and> k < c + length bn \<and> minted k s" if "s \<in> id_node ` set P" for s
    using that unfolding P_def by (rule pasted_minted)
  have P_fresh: "id_node ` set P \<inter> known_ids w = {}"
  proof (rule ccontr)
    assume "id_node ` set P \<inter> known_ids w \<noteq> {}"
    then obtain s where s: "s \<in> id_node ` set P" "s \<in> known_ids w" by blast
    from P_minted [OF s(1)] obtain k where "c \<le> k" "minted k s" by blast
    with ids_below_fresh [OF below] s(2) show False by blast
  qed
  have "clipboard_inv w'"
  proof (rule clipboard_invI)
    have "distinct (map id_node P)" unfolding P_def by (rule pasted_distinct)
    then show "distinct (map id_node (nodes w'))"
      using clipboard_inv_distinct [OF inv] P_fresh nodes_known [of w] unfolding n' by auto
    have "ids_below (idCounter w') (id_node ` set P)"
    proof (rule ids_below_minted, rule ballI)
      fix s assume "s \<in> id_node ` set P"
      from P_minted [OF this] obtain k where "k < c + length bn" "minted k s" by blast
      then show "\<exists>k<idCounter w'. minted k s" unfolding c' by (intro exI [of _ k]) simp
    qed
    moreover have "ids_below (idCounter w') (known_ids w)"
      using below by (rule ids_below_mono) (simp_all add: c')
    moreover have "known_ids w' \<subseteq> id_node ` set P \<union> known_ids w"
      unfolding known_ids_def n' l' r' buffer_nodes_def b' by auto
    ultimately show "ids_below (idCounter w') (known_ids w')"
      using ids_below_Un ids_below_mono by blast
    show "distinct (map id_node (action_nodes (lastAction w')))"
      unfolding l' P_def by (rule pasted_distinct)
    show "distinct (map id_node (action_nodes (redoAction w')))"
      using clipboard_inv_redo_distinct [OF inv] by (simp add: r')
    show "id_node ` set (nodes_action a) \<inter> id_node ` set (nodes w') = {}"
      if "lastAction w' = Some a" "type_action a = cut" for a
      using lt [OF that(1)] that(2) by simp
    show "id_node ` set (nodes_action a) \<inter> id_node ` set (nodes w') = {}"
      if "redoAction w' = Some a" "type_action a = paste" for a
    proof -
      have "id_node ` set (nodes_action a) \<inter> id_node ` set (nodes w) = {}"
        using clipboard_inv_paste_disjoint [OF inv, of a] that by (simp add: r')
      moreover have "id_node ` set (nodes_action a) \<subseteq> known_ids w"
        using redo_known [of w a] that by (simp add: r')
      ultimately show ?thesis using P_fresh unfolding n' set_append image_Un by blast
    qed
  qed
  then show "clipboard_inv (paste_buffer w)" by (simp add: w'_def)
qed

lemma filter_out_ids_disjoint:
  "id_node ` set A \<inter> id_node ` set (filter (\<lambda>n. id_node n \<notin> set (map id_node A)) ns) = {}"
proof -
  have "id_node ` set (filter (\<lambda>n. id_node n \<notin> set (map id_node A)) ns)
        \<subseteq> - (id_node ` set A)"
    by auto
  then show ?thesis by blast
qed

lemma action_type_cases: "type_action a = paste \<or> type_action a = cut"
  by (cases "type_action a") simp_all

lemma clipboard_inv_undo: "clipboard_inv w \<Longrightarrow> clipboard_inv (undo w)"
proof (cases "lastAction w")
  case None
  then have "undo w = w" by (simp add: undo_def)
  then show "clipboard_inv w \<Longrightarrow> clipboard_inv (undo w)" by simp
next
  case (Some a)
  assume inv: "clipboard_inv w"
  define A where "A = nodes_action a"
  define w' where "w' = undo w"
  have dA: "distinct (map id_node A)"
    using clipboard_inv_last_distinct [OF inv] Some by (simp add: action_nodes_def A_def)
  have l': "lastAction w' = None" and r': "redoAction w' = Some a"
    and b': "copyBuffer w' = copyBuffer w" and c': "idCounter w' = idCounter w"
    using Some by (simp_all add: w'_def undo_def split: action_type.splits)
  have A_known: "id_node ` set A \<subseteq> known_ids w"
    using last_known [OF Some] by (simp add: A_def)
  have n': "nodes w' = (if type_action a = paste
                        then filter (\<lambda>n. id_node n \<notin> set (map id_node A)) (nodes w)
                        else nodes w @ A)"
    using Some by (simp add: w'_def undo_def A_def split: action_type.splits)
  have "clipboard_inv w'"
  proof (rule clipboard_invI)
    show "distinct (map id_node (nodes w'))"
    proof (cases "type_action a = paste")
      case True
      then show ?thesis
        using clipboard_inv_distinct [OF inv] by (simp add: n' distinct_map_filter)
    next
      case False
      then have "type_action a = cut" using action_type_cases by blast
      from clipboard_inv_cut_disjoint [OF inv Some this]
      have "id_node ` set A \<inter> id_node ` set (nodes w) = {}" by (simp add: A_def)
      with False dA clipboard_inv_distinct [OF inv] show ?thesis
        by (auto simp: n')
    qed
    have "id_node ` set (nodes w') \<subseteq> known_ids w"
      using A_known nodes_known [of w] by (auto simp: n')
    moreover have "buffer_nodes w' = buffer_nodes w"
      by (simp add: buffer_nodes_def b')
    moreover have "id_node ` set (buffer_nodes w) \<subseteq> known_ids w"
      unfolding known_ids_parts by blast
    ultimately have "known_ids w' \<subseteq> known_ids w"
      using A_known unfolding known_ids_parts [of w'] l' r' by (simp add: action_nodes_def A_def)
    then show "ids_below (idCounter w') (known_ids w')"
      using clipboard_inv_below [OF inv] ids_below_mono unfolding c' by blast
    show "distinct (map id_node (action_nodes (lastAction w')))"
      by (simp add: l' action_nodes_def)
    show "distinct (map id_node (action_nodes (redoAction w')))"
      using dA by (simp add: r' action_nodes_def A_def)
    show "id_node ` set (nodes_action x) \<inter> id_node ` set (nodes w') = {}"
      if "lastAction w' = Some x" "type_action x = cut" for x
      using that by (simp add: l')
    show "id_node ` set (nodes_action x) \<inter> id_node ` set (nodes w') = {}"
      if "redoAction w' = Some x" "type_action x = paste" for x
    proof -
      from that have "x = a" and "type_action a = paste" by (simp_all add: r')
      then show ?thesis
        unfolding n' A_def [symmetric] using filter_out_ids_disjoint [of A "nodes w"]
        by (simp add: A_def)
    qed
  qed
  then show "clipboard_inv (undo w)" by (simp add: w'_def)
qed

lemma clipboard_inv_redo: "clipboard_inv w \<Longrightarrow> clipboard_inv (redo w)"
proof (cases "redoAction w")
  case None
  then have "redo w = w" by (simp add: redo_def)
  then show "clipboard_inv w \<Longrightarrow> clipboard_inv (redo w)" by simp
next
  case (Some a)
  assume inv: "clipboard_inv w"
  define A where "A = nodes_action a"
  define w' where "w' = redo w"
  have dA: "distinct (map id_node A)"
    using clipboard_inv_redo_distinct [OF inv] Some by (simp add: action_nodes_def A_def)
  have l': "lastAction w' = Some a" and r': "redoAction w' = None"
    and b': "copyBuffer w' = copyBuffer w" and c': "idCounter w' = idCounter w"
    using Some by (simp_all add: w'_def redo_def split: action_type.splits)
  have A_known: "id_node ` set A \<subseteq> known_ids w"
    using redo_known [OF Some] by (simp add: A_def)
  have n': "nodes w' = (if type_action a = paste
                        then nodes w @ A
                        else filter (\<lambda>n. id_node n \<notin> set (map id_node A)) (nodes w))"
    using Some by (simp add: w'_def redo_def A_def split: action_type.splits)
  have "clipboard_inv w'"
  proof (rule clipboard_invI)
    show "distinct (map id_node (nodes w'))"
    proof (cases "type_action a = paste")
      case True
      from clipboard_inv_paste_disjoint [OF inv Some this]
      have "id_node ` set A \<inter> id_node ` set (nodes w) = {}" by (simp add: A_def)
      with True dA clipboard_inv_distinct [OF inv] show ?thesis
        by (auto simp: n')
    next
      case False
      then show ?thesis
        using clipboard_inv_distinct [OF inv] by (simp add: n' distinct_map_filter)
    qed
    have "id_node ` set (nodes w') \<subseteq> known_ids w"
      using A_known nodes_known [of w] by (auto simp: n')
    moreover have "buffer_nodes w' = buffer_nodes w"
      by (simp add: buffer_nodes_def b')
    moreover have "id_node ` set (buffer_nodes w) \<subseteq> known_ids w"
      unfolding known_ids_parts by blast
    ultimately have "known_ids w' \<subseteq> known_ids w"
      using A_known unfolding known_ids_parts [of w'] l' r' by (simp add: action_nodes_def A_def)
    then show "ids_below (idCounter w') (known_ids w')"
      using clipboard_inv_below [OF inv] ids_below_mono unfolding c' by blast
    show "distinct (map id_node (action_nodes (lastAction w')))"
      using dA by (simp add: l' action_nodes_def A_def)
    show "distinct (map id_node (action_nodes (redoAction w')))"
      by (simp add: r' action_nodes_def)
    show "id_node ` set (nodes_action x) \<inter> id_node ` set (nodes w') = {}"
      if "lastAction w' = Some x" "type_action x = cut" for x
    proof -
      from that have "x = a" and "type_action a \<noteq> paste" by (simp_all add: l')
      then show ?thesis
        unfolding n' using filter_out_ids_disjoint [of A "nodes w"] by (simp add: A_def)
    qed
    show "id_node ` set (nodes_action x) \<inter> id_node ` set (nodes w') = {}"
      if "redoAction w' = Some x" "type_action x = paste" for x
      using that by (simp add: r')
  qed
  then show "clipboard_inv (redo w)" by (simp add: w'_def)
qed

lemma clipboard_inv_exec: "clipboard_inv w \<Longrightarrow> is_edit c \<Longrightarrow> clipboard_inv (exec c w)"
  by (cases c)
    (simp_all add: clipboard_inv_drop clipboard_inv_select clipboard_inv_copy clipboard_inv_cut
      clipboard_inv_paste clipboard_inv_select_all clipboard_inv_undo clipboard_inv_redo
      clipboard_inv_delete)

lemma clipboard_inv_run:
  "clipboard_inv w \<Longrightarrow> list_all is_edit cs \<Longrightarrow> clipboard_inv (run_commands cs w)"
  by (induction cs arbitrary: w) (simp_all add: clipboard_inv_exec)

text \<open>
  What the id counter achieves: starting from the empty editor, after every sequence of
  drops, selection changes, copy, cut, paste, select-all, undo, redo and delete-selection,
  no two nodes of the graph share an id. Preset load, document load and the chat's
  additions are not among these commands.
\<close>

theorem editing_keeps_node_ids_unique:
  "list_all is_edit cs \<Longrightarrow> distinct (map id_node (nodes (run_commands cs initial_world)))"
  using clipboard_inv_run [OF clipboard_inv_initial] clipboard_inv_distinct by blast

lemmas edit_defs =
  onDrop_def onSelectionChangeHandler_def copy_selection_def cut_selection_def paste_buffer_def
  select_all_def undo_def redo_def handleDelete_def onApplyPreset_def onLoadWorkflow_def
  selected_ids_def ids_include_def pasted_nodes_def pasted_node_def pasted_edges_def
  oldToNew_def lookup_endpoint_def property_key_def object_prototype_keys_def loaded_node_def
  remove_whitespace_def handleChatWorkflowGenerated_def generateDefaultWorkflow_def Let_def

text \<open>
  C6: node ids are unique within the graph after every sequence of editing operations,
  preset load and added nodes included. The code breaks this in two places. Loading the
  Basic Research preset, cutting all of it, loading the preset again and undoing the cut
  puts every node of the preset into the graph twice: the preset load leaves the undo slot
  as it was. And when the chat adds the server's default workflow to the empty editor, the
  first node dropped afterwards is given the id of the chat's first node: the additions do
  not advance the id counter.
\<close>

theorem node_ids_duplicated:
  "map id_node (nodes (run_commands
      [Apply_preset basicResearchWorkflow, Select_all, Cut,
       Apply_preset basicResearchWorkflow, Undo] initial_world))
   = [''basic_src'', ''basic_review'', ''basic_export'',
      ''basic_src'', ''basic_review'', ''basic_export'']
   \<and> map id_node (nodes (run_commands
      [Chat_generated (fst (generateDefaultWorkflow 0)) (snd (generateDefaultWorkflow 0)),
       Drop Source_Finder (0, 0)] initial_world))
   = [''SourceFinder_1'', ''ExportTXT_2'', ''SourceFinder_1'']"
  by (simp add: edit_defs basicResearchWorkflow_def example_defs show_nat.simps digit_def)

theorem editing_keeps_node_ids_unique_witness:
  "list_all is_edit [Drop Source_Finder (0, 0), Drop Export_TXT (400, 0), Select_all, Copy,
                     Paste, Undo, Redo, Select_all, Cut, Undo]
   \<and> distinct (map id_node (nodes (run_commands
        [Drop Source_Finder (0, 0), Drop Export_TXT (400, 0), Select_all, Copy,
         Paste, Undo, Redo, Select_all, Cut, Undo] initial_world)))
   \<and> map id_node (nodes (run_commands
        [Drop Source_Finder (0, 0), Drop Export_TXT (400, 0), Select_all, Copy,
         Paste, Undo, Redo, Select_all, Cut, Undo] initial_world))
     = [''SourceFinder_1'', ''ExportTXT_2'', ''SourceFinder_1_3'', ''ExportTXT_2_4'']"
proof -
  let ?cs = "[Drop Source_Finder (0, 0), Drop Export_TXT (400, 0), Select_all, Copy,
              Paste, Undo, Redo, Select_all, Cut, Undo]"
  have e: "list_all is_edit ?cs" by simp
  have "map id_node (nodes (run_commands ?cs initial_world))
        = [''SourceFinder_1'', ''ExportTXT_2'', ''SourceFinder_1_3'', ''ExportTXT_2_4'']"
    by (simp add: edit_defs example_defs show_nat.simps digit_def)
  with e editing_keeps_node_ids_unique [OF e] show ?thesis by simp
qed

text \<open>Reading the paste table: an entry, a missing key, a name of \<^verbatim>\<open>Object.prototype\<close>.\<close>

lemma lookup_endpoint_examples:
  "lookup_endpoint [(''a'', ''a_1''), (''b'', ''b_2'')] (Node_id ''b'') = Node_id ''b_2''"
  "lookup_endpoint [(''a'', ''a_1'')] (Node_id ''c'') = Undefined_endpoint"
  "lookup_endpoint [(''a'', ''a_1'')] (Node_id ''toString'') = Inherited ''toString''"
  "oldToNew 1 [createToolNode ''__proto__'' ''Export TXT'' Export_TXT 0 0] = []"
  "lookup_endpoint [] (Node_id ''__proto__'') = Inherited ''__proto__''"
  by (simp_all add: lookup_endpoint_def property_key_def object_prototype_keys_def
      oldToNew_def createToolNode_def)

lemma filter_append_fresh:
  assumes "f ` set ys \<inter> f ` set xs = {}"
  shows "filter (\<lambda>x. f x \<notin> set (map f ys)) (xs @ ys) = xs"
proof -
  have "filter (\<lambda>x. f x \<notin> f ` set ys) xs = xs"
    using assms by (auto simp: filter_id_conv)
  moreover have "filter (\<lambda>x. f x \<notin> f ` set ys) ys = []"
    by (auto simp: filter_empty_conv)
  ultimately show ?thesis by simp
qed

text \<open>
  When none of the ids minted by the paste, for nodes or for edges, is already in the
  graph, a paste followed at once by an undo gives back exactly the node list and the edge
  list from before the paste, empties the undo slot and puts the paste action into the
  redo slot.
\<close>

theorem paste_undo_restores:
  assumes "copyBuffer w = Some (bufNodes, bufEdges)"
    and "id_node ` set (pasted_nodes (idCounter w) bufNodes) \<inter> id_node ` set (nodes w) = {}"
    and "id_edge ` set (pasted_edges (idCounter w + length bufNodes)
                          (oldToNew (idCounter w) bufNodes) bufEdges)
         \<inter> id_edge ` set (edges w) = {}"
  shows "nodes (undo (paste_buffer w)) = nodes w
    \<and> edges (undo (paste_buffer w)) = edges w
    \<and> lastAction (undo (paste_buffer w)) = None
    \<and> redoAction (undo (paste_buffer w))
      = Some \<lparr>type_action = paste,
              nodes_action = pasted_nodes (idCounter w) bufNodes,
              edges_action = pasted_edges (idCounter w + length bufNodes)
                               (oldToNew (idCounter w) bufNodes) bufEdges\<rparr>"
  using assms filter_append_fresh [OF assms(2)] filter_append_fresh [OF assms(3)]
  by (simp add: undo_def paste_buffer_def Let_def)

text \<open>In a state the editing commands reach from the empty editor the minted node ids
  are fresh, and the nodes are restored.\<close>

lemma pasted_ids_fresh:
  assumes "clipboard_inv w"
  shows "id_node ` set (pasted_nodes (idCounter w) ns) \<inter> id_node ` set (nodes w) = {}"
proof (rule ccontr)
  assume "id_node ` set (pasted_nodes (idCounter w) ns) \<inter> id_node ` set (nodes w) \<noteq> {}"
  then obtain s where s: "s \<in> id_node ` set (pasted_nodes (idCounter w) ns)"
    and n: "s \<in> id_node ` set (nodes w)"
    by blast
  from pasted_minted [OF s] obtain k where "idCounter w \<le> k" and "minted k s" by blast
  with ids_below_fresh [OF clipboard_inv_below [OF assms]] have "s \<notin> known_ids w" by blast
  with n nodes_known [of w] show False by blast
qed

lemma paste_undo_restores_nodes:
  assumes "list_all is_edit cs" and "copyBuffer (run_commands cs initial_world) \<noteq> None"
  shows "nodes (undo (paste_buffer (run_commands cs initial_world)))
         = nodes (run_commands cs initial_world)"
proof -
  let ?w = "run_commands cs initial_world"
  have inv: "clipboard_inv ?w"
    using clipboard_inv_run [OF clipboard_inv_initial assms(1)] .
  from assms(2) obtain bn be where b: "copyBuffer ?w = Some (bn, be)" by auto
  show ?thesis
    using b filter_append_fresh [OF pasted_ids_fresh [OF inv, of bn]]
    by (simp add: undo_def paste_buffer_def Let_def)
qed

text \<open>
  C7: a paste followed at once by an undo restores the graph to its node set and edge set
  from before the paste, for every graph and every copy buffer. The code breaks this. In
  \<open>collision_example\<close> the graph, loaded from the document of an earlier session, already
  has a node \<^verbatim>\<open>SourceFinder_1_1\<close>; the id counter of the new session starts at 1 again, so
  the paste mints that id a second time, and the undo, which removes by id, takes the
  earlier node away with the pasted one.
\<close>

theorem paste_undo_removes_existing_node:
  "map id_node (nodes collision_example) = [''SourceFinder_1'', ''SourceFinder_1_1'']
   \<and> copyBuffer collision_example \<noteq> None
   \<and> map id_node (nodes (paste_buffer collision_example))
     = [''SourceFinder_1'', ''SourceFinder_1_1'', ''SourceFinder_1_1'', ''SourceFinder_1_1_2'']
   \<and> map id_node (nodes (undo (paste_buffer collision_example))) = [''SourceFinder_1'']"
  by (simp add: collision_example_def earlier_session_doc_def first_session_doc_def
      workflowData_def saved_node_def edit_defs example_defs show_nat.simps digit_def)

theorem paste_undo_restores_witness:
  "map id_node (nodes copied_preset) = [''basic_src'', ''basic_review'', ''basic_export'']
   \<and> map id_node (nodes (paste_buffer copied_preset))
     = [''basic_src'', ''basic_review'', ''basic_export'',
        ''basic_src_1'', ''basic_review_2'', ''basic_export_3'']
   \<and> map id_edge (edges (paste_buffer copied_preset)) = [''e1'', ''e2'', ''e_4'', ''e_5'']
   \<and> nodes (undo (paste_buffer copied_preset)) = nodes copied_preset
   \<and> edges (undo (paste_buffer copied_preset)) = edges copied_preset
   \<and> lastAction (undo (paste_buffer copied_preset)) = None
   \<and> redoAction (undo (paste_buffer copied_preset)) = lastAction (paste_buffer copied_preset)"
proof -
  have w: "copied_preset
           = initial_world\<lparr>nodes := fst basicResearchWorkflow, edges := snd basicResearchWorkflow,
               selection := basicResearchWorkflow, copyBuffer := Some basicResearchWorkflow\<rparr>"
    by (simp add: copied_preset_def edit_defs basicResearchWorkflow_def example_defs)
  have 1: "copyBuffer copied_preset
           = Some (fst basicResearchWorkflow, snd basicResearchWorkflow)"
    by (simp add: w)
  have 2: "id_node ` set (pasted_nodes (idCounter copied_preset) (fst basicResearchWorkflow))
           \<inter> id_node ` set (nodes copied_preset) = {}"
    by (simp add: w edit_defs basicResearchWorkflow_def example_defs show_nat.simps digit_def)
  have 3: "id_edge ` set (pasted_edges
              (idCounter copied_preset + length (fst basicResearchWorkflow))
              (oldToNew (idCounter copied_preset) (fst basicResearchWorkflow))
              (snd basicResearchWorkflow))
           \<inter> id_edge ` set (edges copied_preset) = {}"
    by (simp add: w edit_defs basicResearchWorkflow_def example_defs show_nat.simps digit_def)
  have p: "map id_node (nodes (paste_buffer copied_preset))
     = [''basic_src'', ''basic_review'', ''basic_export'',
        ''basic_src_1'', ''basic_review_2'', ''basic_export_3'']"
    "map id_edge (edges (paste_buffer copied_preset)) = [''e1'', ''e2'', ''e_4'', ''e_5'']"
    by (simp_all add: w edit_defs basicResearchWorkflow_def example_defs show_nat.simps digit_def)
  have l: "lastAction (paste_buffer copied_preset)
           = Some \<lparr>type_action = paste,
              nodes_action = pasted_nodes (idCounter copied_preset) (fst basicResearchWorkflow),
              edges_action = pasted_edges
                (idCounter copied_preset + length (fst basicResearchWorkflow))
                (oldToNew (idCounter copied_preset) (fst basicResearchWorkflow))
                (snd basicResearchWorkflow)\<rparr>"
    by (simp add: 1 paste_buffer_def Let_def case_prod_beta)
  have n: "map id_node (nodes copied_preset) = [''basic_src'', ''basic_review'', ''basic_export'']"
    by (simp add: w basicResearchWorkflow_def example_defs)
  show ?thesis
    using paste_undo_restores [OF 1 2 3] p n by (simp add: l)
qed

end
